theory Spec2Isabelle
  imports Main
begin

section \<open>Parsed documents and the dynamic operations Python applies to them\<close>

text \<open>
  \<^verbatim>\<open>yaml.safe_load\<close> returns a tree of Python values. The model covers null,
  booleans, integers, strings, sequences and mappings with string keys (a mapping is
  kept as an association list in insertion order, looked up with \<open>map_of\<close>).
  Floating-point scalars, timestamps and binary scalars are outside the model.
\<close>

datatype yval =
    YNull
  | YBool bool
  | YInt int
  | YStr string
  | YList "yval list"
  | YMap "(string \<times> yval) list"

text \<open>
  The exceptions the validators can raise on such values; \<open>LoadError\<close> stands for
  whatever \<^verbatim>\<open>open\<close> or \<^verbatim>\<open>yaml.safe_load\<close> raised, with its text.
\<close>

datatype py_error =
    TypeError
  | AttributeError
  | KeyError string
  | ValueError
  | NetworkXError
  | LoadError string

definition ebind :: "'e + 'a \<Rightarrow> ('a \<Rightarrow> 'e + 'b) \<Rightarrow> 'e + 'b" where
  "ebind m f = (case m of Inl e \<Rightarrow> Inl e | Inr x \<Rightarrow> f x)"

fun is_prefix :: "string \<Rightarrow> string \<Rightarrow> bool" where
  "is_prefix [] ys = True"
| "is_prefix (x # xs) [] = False"
| "is_prefix (x # xs) (y # ys) = (x = y \<and> is_prefix xs ys)"

text \<open>\<^verbatim>\<open>k in s\<close> on two strings is the substring test.\<close>

fun is_substring :: "string \<Rightarrow> string \<Rightarrow> bool" where
  "is_substring k [] = (k = [])"
| "is_substring k (c # cs) = (is_prefix k (c # cs) \<or> is_substring k cs)"

text \<open>\<^verbatim>\<open>s.endswith(k)\<close>.\<close>

definition endswith :: "string \<Rightarrow> string \<Rightarrow> bool" where
  "endswith s k = is_prefix (rev k) (rev s)"

text \<open>
  \<^verbatim>\<open>k in x\<close> for a string \<open>k\<close>: key test on a mapping, membership on a
  sequence, substring test on a string, \<^verbatim>\<open>TypeError\<close> on null, booleans and
  integers.
\<close>

fun py_contains :: "string \<Rightarrow> yval \<Rightarrow> py_error + bool" where
  "py_contains k (YMap kvs) = Inr (map_of kvs k \<noteq> None)"
| "py_contains k (YList xs) = Inr (List.member xs (YStr k))"
| "py_contains k (YStr s) = Inr (is_substring k s)"
| "py_contains k YNull = Inl TypeError"
| "py_contains k (YBool b) = Inl TypeError"
| "py_contains k (YInt n) = Inl TypeError"

text \<open>
  \<^verbatim>\<open>x[k]\<close> for a string \<open>k\<close>: the value or \<^verbatim>\<open>KeyError\<close> on a mapping,
  \<^verbatim>\<open>TypeError\<close> on everything else (sequences and strings want integer
  indices, the other values are not subscriptable).
\<close>

fun py_getitem :: "yval \<Rightarrow> string \<Rightarrow> py_error + yval" where
  "py_getitem (YMap kvs) k = (case map_of kvs k of None \<Rightarrow> Inl (KeyError k) | Some v \<Rightarrow> Inr v)"
| "py_getitem (YList xs) k = Inl TypeError"
| "py_getitem (YStr s) k = Inl TypeError"
| "py_getitem YNull k = Inl TypeError"
| "py_getitem (YBool b) k = Inl TypeError"
| "py_getitem (YInt n) k = Inl TypeError"

text \<open>\<^verbatim>\<open>x.get(k, d)\<close>: only mappings have the method.\<close>

fun py_get :: "yval \<Rightarrow> string \<Rightarrow> yval \<Rightarrow> py_error + yval" where
  "py_get (YMap kvs) k d = Inr (case map_of kvs k of None \<Rightarrow> d | Some v \<Rightarrow> v)"
| "py_get (YList xs) k d = Inl AttributeError"
| "py_get (YStr s) k d = Inl AttributeError"
| "py_get YNull k d = Inl AttributeError"
| "py_get (YBool b) k d = Inl AttributeError"
| "py_get (YInt n) k d = Inl AttributeError"

text \<open>\<^verbatim>\<open>len(x)\<close>.\<close>

fun py_len :: "yval \<Rightarrow> py_error + nat" where
  "py_len (YMap kvs) = Inr (length kvs)"
| "py_len (YList xs) = Inr (length xs)"
| "py_len (YStr s) = Inr (length s)"
| "py_len YNull = Inl TypeError"
| "py_len (YBool b) = Inl TypeError"
| "py_len (YInt n) = Inl TypeError"

text \<open>
  \<^verbatim>\<open>for item in x\<close>: the elements of a sequence, the keys of a mapping, the
  one-character strings of a string.
\<close>

fun py_iter :: "yval \<Rightarrow> py_error + yval list" where
  "py_iter (YList xs) = Inr xs"
| "py_iter (YMap kvs) = Inr (map (\<lambda>kv. YStr (fst kv)) kvs)"
| "py_iter (YStr s) = Inr (map (\<lambda>c. YStr [c]) s)"
| "py_iter YNull = Inl TypeError"
| "py_iter (YBool b) = Inl TypeError"
| "py_iter (YInt n) = Inl TypeError"

fun is_dict :: "yval \<Rightarrow> bool" where
  "is_dict (YMap kvs) = True"
| "is_dict v = False"


text \<open>
  Hashing: \<^verbatim>\<open>x in some_dict\<close> and graph nodes need a hashable value. Sequences
  and mappings are not hashable (\<^verbatim>\<open>TypeError\<close>).
\<close>

fun hashable :: "yval \<Rightarrow> bool" where
  "hashable (YList xs) = False"
| "hashable (YMap kvs) = False"
| "hashable v = True"

section \<open>Regular expressions\<close>

text \<open>
  The patterns of the source are written as values of \<open>rx\<close>; a character class
  lists its characters. Matching is by derivatives.
\<close>

datatype rx =
    Chr char
  | Cls string
  | Seq rx rx
  | Alt rx rx
  | Star rx
  | Eps
  | Nothing

definition Plus :: "rx \<Rightarrow> rx" where
  "Plus r = Seq r (Star r)"

fun seqs :: "rx list \<Rightarrow> rx" where
  "seqs [] = Eps"
| "seqs [r] = r"
| "seqs (r # rs) = Seq r (seqs rs)"

fun nullable :: "rx \<Rightarrow> bool" where
  "nullable (Chr c) = False"
| "nullable (Cls cs) = False"
| "nullable (Seq r s) = (nullable r \<and> nullable s)"
| "nullable (Alt r s) = (nullable r \<or> nullable s)"
| "nullable (Star r) = True"
| "nullable Eps = True"
| "nullable Nothing = False"

fun deriv :: "char \<Rightarrow> rx \<Rightarrow> rx" where
  "deriv c (Chr d) = (if c = d then Eps else Nothing)"
| "deriv c (Cls cs) = (if c \<in> set cs then Eps else Nothing)"
| "deriv c (Seq r s) =
     (if nullable r then Alt (Seq (deriv c r) s) (deriv c s) else Seq (deriv c r) s)"
| "deriv c (Alt r s) = Alt (deriv c r) (deriv c s)"
| "deriv c (Star r) = Seq (deriv c r) (Star r)"
| "deriv c Eps = Nothing"
| "deriv c Nothing = Nothing"

fun rmatch :: "rx \<Rightarrow> string \<Rightarrow> bool" where
  "rmatch r [] = nullable r"
| "rmatch r (c # cs) = rmatch (deriv c r) cs"

text \<open>
  \<^verbatim>\<open>re.match(r'^body$', s)\<close>: Python's \<^verbatim>\<open>$\<close> matches at the end of the
  string and also just before a newline that ends the string.
\<close>

definition re_match_anchored :: "rx \<Rightarrow> string \<Rightarrow> bool" where
  "re_match_anchored body s =
     (rmatch body s \<or> (s \<noteq> [] \<and> last s = CHR 0x0A \<and> rmatch body (butlast s)))"

text \<open>\<^verbatim>\<open>re.match\<close> on a value that is not a string raises \<^verbatim>\<open>TypeError\<close>.\<close>

fun py_re_match :: "rx \<Rightarrow> yval \<Rightarrow> py_error + bool" where
  "py_re_match body (YStr s) = Inr (re_match_anchored body s)"
| "py_re_match body v = Inl TypeError"

definition lower :: string where "lower = ''abcdefghijklmnopqrstuvwxyz''"
definition upper :: string where "upper = ''ABCDEFGHIJKLMNOPQRSTUVWXYZ''"
definition digit :: string where "digit = ''0123456789''"

text \<open>\<^verbatim>\<open>\d+\.\d+\.\d+\<close>\<close>

definition rx_semver :: rx where
  "rx_semver = seqs [Plus (Cls digit), Chr CHR ''.'', Plus (Cls digit), Chr CHR ''.'', Plus (Cls digit)]"

text \<open>\<^verbatim>\<open>[a-z0-9.-]+/[a-z0-9-]+\<close>\<close>

definition rx_ns_name :: rx where
  "rx_ns_name = seqs [Plus (Cls (lower @ digit @ ''.-'')), Chr CHR ''/'', Plus (Cls (lower @ digit @ ''-''))]"

text \<open>\<^verbatim>\<open>[a-z0-9.-]+/[a-z0-9-]+:\d+\.\d+\.\d+\<close>\<close>

definition rx_ns_name_version :: rx where
  "rx_ns_name_version = seqs [rx_ns_name, Chr CHR '':'', rx_semver]"

section \<open>Diagnostics\<close>

text \<open>
  A graph node is a hashable Python value. \<^verbatim>\<open>True == 1\<close> and \<^verbatim>\<open>False == 0\<close> in
  Python, also as dictionary keys, so booleans are integer nodes.
\<close>

datatype node = NStr string | NInt int

datatype path_elem = PKey string | PIdx nat

text \<open>
  Every message the validators format is a constructor holding the values the
  f-string interpolates; the fixed wording is in the comment of each constructor.
\<close>

datatype msg =
    FailedToLoadArtifact py_error
      \<comment> \<open>\<^verbatim>\<open>Failed to load artifact: {e}\<close>\<close>
  | MissingRequiredField string
      \<comment> \<open>\<^verbatim>\<open>Missing required field: {field}\<close>\<close>
  | MissingRequiredMetadataField string
      \<comment> \<open>\<^verbatim>\<open>Missing required metadata field: {field}\<close>\<close>
  | InvalidNameFormat yval
      \<comment> \<open>\<^verbatim>\<open>Invalid name format: '{name}'. Must match pattern: namespace/artifact-name ...\<close>\<close>
  | InvalidVersionFormatSemver yval
      \<comment> \<open>\<^verbatim>\<open>Invalid version format: '{version}'. Must follow semantic versioning: ...\<close>\<close>
  | NamingRegistryFormatShould
      \<comment> \<open>\<^verbatim>\<open>Naming registry format should be 'reverse-DNS'\<close>\<close>
  | DependsOnMustBeArray
      \<comment> \<open>\<^verbatim>\<open>dependsOn must be an array\<close>\<close>
  | DependencyMustBeObject nat
      \<comment> \<open>\<^verbatim>\<open>Dependency {i} must be an object\<close>\<close>
  | DependencyMissingQuoted nat string
      \<comment> \<open>\<^verbatim>\<open>Dependency {i} missing '{field}' field\<close>\<close>
  | SchemaMessage string
      \<comment> \<open>\<^verbatim>\<open>Schema validation error: ...\<close> or \<^verbatim>\<open>Schema validation failed: ...\<close>\<close>
  | MissingSemanticType
      \<comment> \<open>\<^verbatim>\<open>Missing semanticType in metadata\<close>\<close>
  | InvalidSemanticTypeOneOf yval
      \<comment> \<open>\<^verbatim>\<open>Invalid semanticType: '{semantic_type}'. Must be one of: ...\<close>\<close>
  | DependencyMissingRequiredField nat string
      \<comment> \<open>\<^verbatim>\<open>Dependency {index} missing required field: {field}\<close>\<close>
  | DependencyNotInRegistry yval
      \<comment> \<open>\<^verbatim>\<open>Dependency artifact not found in registry: {artifact_name}\<close>\<close>
  | InvalidVersionConstraint yval
      \<comment> \<open>\<^verbatim>\<open>Invalid version constraint: {version}\<close>\<close>
  | CircularDependenciesDetected "node list list"
      \<comment> \<open>\<^verbatim>\<open>Circular dependencies detected: {cycles}\<close>\<close>
  | InvalidSemanticType yval
      \<comment> \<open>\<^verbatim>\<open>Invalid semantic type: {semantic_type}\<close>\<close>
  | MissingRequiredFieldFor yval string
      \<comment> \<open>\<^verbatim>\<open>Missing required field for {semantic_type}: {field}\<close>\<close>
  | UnexpectedFieldFor yval yval
      \<comment> \<open>\<^verbatim>\<open>Unexpected field for {semantic_type}: {field}\<close>\<close>
  | CannotDependOn yval yval "string list"
      \<comment> \<open>\<^verbatim>\<open>{semantic_type} cannot depend on {dep_type}. Allowed: {allowed}\<close>\<close>
  | MissingMetadata
      \<comment> \<open>\<^verbatim>\<open>Missing metadata\<close>\<close>
  | NamingRegistryFormatMust
      \<comment> \<open>\<^verbatim>\<open>Naming registry format must be 'reverse-DNS'\<close>\<close>
  | NamespaceRequiresVerification yval
      \<comment> \<open>\<^verbatim>\<open>Namespace {namespace} requires verification\<close>\<close>
  | NamespaceNotVerified yval
      \<comment> \<open>\<^verbatim>\<open>Namespace {namespace} is not verified\<close>\<close>
  | InvalidNamespaceFormat yval
      \<comment> \<open>\<^verbatim>\<open>Invalid namespace format: {namespace}\<close>\<close>
  | InvalidArtifactNameFormat yval
      \<comment> \<open>\<^verbatim>\<open>Invalid artifact name format: {name}\<close>\<close>
  | ArtifactNameTooLong nat
      \<comment> \<open>\<^verbatim>\<open>Artifact name too long (max {max_len} characters)\<close>\<close>
  | ArtifactNameTooShort nat
      \<comment> \<open>\<^verbatim>\<open>Artifact name too short (min {min_len} characters)\<close>\<close>
  | ArtifactNameReserved yval
      \<comment> \<open>\<^verbatim>\<open>Artifact name uses reserved word: {name}\<close>\<close>
  | UsingPrereleaseVersion
      \<comment> \<open>\<^verbatim>\<open>Using prerelease version\<close>\<close>
  | UsingBuildVersion
      \<comment> \<open>\<^verbatim>\<open>Using build version with metadata\<close>\<close>
  | InvalidVersionFormat yval
      \<comment> \<open>\<^verbatim>\<open>Invalid version format: {version}\<close>\<close>
  | InvalidReferenceFormatAt "path_elem list"
      \<comment> \<open>\<^verbatim>\<open>Invalid reference format at {field}\<close>\<close>
  | ReferenceTargetNotFound string
      \<comment> \<open>\<^verbatim>\<open>Reference target not found in registry: {ref_value}\<close>\<close>
  | InvalidReferenceFormat string
      \<comment> \<open>\<^verbatim>\<open>Invalid reference format: {ref_value}\<close>\<close>

datatype status = PASSED | FAILED | WARNING | SKIPPED

text \<open>
  The status rule, written twice in the source with the same four branches
  (\<^verbatim>\<open>MCPValidator.validate_artifact\<close> and
  \<^verbatim>\<open>ExtendedMCPValidator.validate_artifact_extended\<close>). A non-empty list is
  truthy.
\<close>

definition determine_status :: "msg list \<Rightarrow> msg list \<Rightarrow> bool \<Rightarrow> status" where
  "determine_status errors warnings strict =
     (if errors \<noteq> [] then FAILED
      else if warnings \<noteq> [] \<and> strict then FAILED
      else if warnings \<noteq> [] then WARNING
      else PASSED)"

section \<open>The base validator (tools/validator.py)\<close>

text \<open>
  What the validator instance holds: the artifact registry (its identifiers; an empty
  registry is falsy and switches the registry checks off) and the JSON-schema check,
  present when a schema file was given. \<^verbatim>\<open>_validate_against_schema\<close> catches
  every exception of the \<^verbatim>\<open>jsonschema\<close> library and returns messages, so it
  is a function from the document to messages.
\<close>

record config =
  artifact_registry :: "string list"
  schema_check :: "(yval \<Rightarrow> msg list) option"

text \<open>The file as both validators read it: the loader raised, or it returned a value.\<close>

datatype source_file = LoadFails string | Parsed yval

fun missing_fields :: "string list \<Rightarrow> yval \<Rightarrow> py_error + string list" where
  "missing_fields [] x = Inr []"
| "missing_fields (f # fs) x =
     ebind (py_contains f x) (\<lambda>present.
     ebind (missing_fields fs x) (\<lambda>rest.
       Inr (if present then rest else f # rest)))"

definition validate_structure :: "yval \<Rightarrow> py_error + msg list" where
  "validate_structure artifact =
     ebind (missing_fields [''apiVersion'', ''kind'', ''metadata''] artifact) (\<lambda>top.
     ebind (py_contains ''metadata'' artifact) (\<lambda>has_metadata.
       if has_metadata then
         ebind (py_getitem artifact ''metadata'') (\<lambda>metadata.
         ebind (missing_fields [''name'', ''version'', ''semanticType''] metadata) (\<lambda>inner.
           Inr (map MissingRequiredField top @ map MissingRequiredMetadataField inner)))
       else Inr (map MissingRequiredField top)))"

definition validate_naming :: "yval \<Rightarrow> py_error + (msg list \<times> msg list)" where
  "validate_naming artifact =
     ebind (py_contains ''metadata'' artifact) (\<lambda>has_metadata.
       if \<not> has_metadata then Inr ([], [])
       else
         ebind (py_getitem artifact ''metadata'') (\<lambda>metadata.
         ebind (py_contains ''name'' metadata) (\<lambda>has_name.
         ebind (if has_name then
                  ebind (py_getitem metadata ''name'') (\<lambda>name.
                  ebind (py_re_match rx_ns_name name) (\<lambda>ok.
                    Inr (if ok then [] else [InvalidNameFormat name])))
                else Inr []) (\<lambda>name_errors.
         ebind (py_contains ''version'' metadata) (\<lambda>has_version.
         ebind (if has_version then
                  ebind (py_getitem metadata ''version'') (\<lambda>version.
                  ebind (py_re_match rx_semver version) (\<lambda>ok.
                    Inr (if ok then [] else [InvalidVersionFormatSemver version])))
                else Inr []) (\<lambda>version_errors.
         ebind (py_contains ''namingRegistry'' metadata) (\<lambda>has_registry.
         ebind (if has_registry then
                  ebind (py_getitem metadata ''namingRegistry'') (\<lambda>naming_registry.
                  ebind (py_get naming_registry ''format'' YNull) (\<lambda>fmt.
                    Inr (if fmt \<noteq> YStr ''reverse-DNS'' then [NamingRegistryFormatShould] else [])))
                else Inr []) (\<lambda>warnings.
           Inr (name_errors @ version_errors, warnings)))))))))"

fun basic_dependency_errors :: "nat \<Rightarrow> yval list \<Rightarrow> py_error + msg list" where
  "basic_dependency_errors i [] = Inr []"
| "basic_dependency_errors i (dep # deps) =
     (if \<not> is_dict dep then
        ebind (basic_dependency_errors (Suc i) deps) (\<lambda>rest.
          Inr (DependencyMustBeObject i # rest))
      else
        ebind (py_contains ''artifact'' dep) (\<lambda>has_artifact.
        ebind (py_contains ''purpose'' dep) (\<lambda>has_purpose.
        ebind (basic_dependency_errors (Suc i) deps) (\<lambda>rest.
          Inr ((if has_artifact then [] else [DependencyMissingQuoted i ''artifact''])
             @ (if has_purpose then [] else [DependencyMissingQuoted i ''purpose''])
             @ rest)))))"

definition validate_dependencies_basic :: "yval \<Rightarrow> py_error + msg list" where
  "validate_dependencies_basic artifact =
     ebind (py_contains ''dependsOn'' artifact) (\<lambda>has_deps.
       if \<not> has_deps then Inr []
       else
         ebind (py_getitem artifact ''dependsOn'') (\<lambda>depends_on.
           case depends_on of
             YList deps \<Rightarrow> basic_dependency_errors 0 deps
           | _ \<Rightarrow> Inr [DependsOnMustBeArray]))"

definition valid_types :: "string list" where
  "valid_types = [''manifest'', ''schema'', ''spec'', ''index'', ''taxonomy'',
     ''governance'', ''policy'', ''role'', ''toolchain'', ''documentation'']"

definition validate_semantic_type :: "yval \<Rightarrow> py_error + msg list" where
  "validate_semantic_type artifact =
     ebind (py_contains ''metadata'' artifact) (\<lambda>has_metadata.
       if \<not> has_metadata then Inr []
       else
         ebind (py_getitem artifact ''metadata'') (\<lambda>metadata.
         ebind (py_contains ''semanticType'' metadata) (\<lambda>has_type.
           if \<not> has_type then Inr [MissingSemanticType]
           else
             ebind (py_getitem metadata ''semanticType'') (\<lambda>semantic_type.
               Inr (if semantic_type \<notin> YStr ` set valid_types
                    then [InvalidSemanticTypeOneOf semantic_type] else [])))))"

record basic_result =
  b_status :: status
  b_artifact_type :: "yval option"
  b_errors :: "msg list"
  b_warnings :: "msg list"

text \<open>
  \<^verbatim>\<open>MCPValidator.validate_artifact\<close>. The whole body sits in one
  \<^verbatim>\<open>try\<close>: an exception of any step leaves the errors and warnings collected
  so far, appends one \<^verbatim>\<open>Failed to load artifact\<close> error and fails the result.
\<close>

definition basic_failure :: "yval option \<Rightarrow> msg list \<Rightarrow> msg list \<Rightarrow> py_error \<Rightarrow> basic_result" where
  "basic_failure ty errors warnings e =
     \<lparr>b_status = FAILED, b_artifact_type = ty,
      b_errors = errors @ [FailedToLoadArtifact e], b_warnings = warnings\<rparr>"

definition validate_artifact :: "config \<Rightarrow> source_file \<Rightarrow> bool \<Rightarrow> basic_result" where
  "validate_artifact cfg file strict =
     (case file of
        LoadFails txt \<Rightarrow> basic_failure None [] [] (LoadError txt)
      | Parsed artifact \<Rightarrow>
          (case py_get artifact ''kind'' (YStr ''Unknown'') of
             Inl e \<Rightarrow> basic_failure None [] [] e
           | Inr kind \<Rightarrow>
          (case validate_structure artifact of
             Inl e \<Rightarrow> basic_failure (Some kind) [] [] e
           | Inr structure_errors \<Rightarrow>
          (case validate_naming artifact of
             Inl e \<Rightarrow> basic_failure (Some kind) structure_errors [] e
           | Inr (naming_errors, naming_warnings) \<Rightarrow>
          (case validate_dependencies_basic artifact of
             Inl e \<Rightarrow> basic_failure (Some kind) (structure_errors @ naming_errors) naming_warnings e
           | Inr dep_errors \<Rightarrow>
          (let schema_errors = (case schema_check cfg of None \<Rightarrow> [] | Some check \<Rightarrow> check artifact);
               errors4 = structure_errors @ naming_errors @ dep_errors @ schema_errors
           in case validate_semantic_type artifact of
                Inl e \<Rightarrow> basic_failure (Some kind) errors4 naming_warnings e
              | Inr semantic_errors \<Rightarrow>
                  \<lparr>b_status = determine_status (errors4 @ semantic_errors) naming_warnings strict,
                   b_artifact_type = Some kind,
                   b_errors = errors4 @ semantic_errors,
                   b_warnings = naming_warnings\<rparr>))))))"

section \<open>Per-validator results\<close>

text \<open>
  Every validator returns a dictionary with the keys \<^verbatim>\<open>valid\<close>,
  \<^verbatim>\<open>errors\<close> and \<^verbatim>\<open>warnings\<close>, and keys of its own.
\<close>

record outcome =
  valid :: bool
  errors :: "msg list"
  warnings :: "msg list"

record dependency_core = outcome +
  missing_dependencies :: "yval list"
  invalid_versions :: "yval list"

record dependency_result = dependency_core +
  circular_dependencies :: "node list list"

record semantic_result = outcome +
  type_violations :: "msg list"
  relationship_violations :: "msg list"

record naming_result = outcome +
  namespace_compliance :: "outcome option"
  artifact_name_compliance :: "outcome option"
  version_compliance :: "outcome option"

record ref_entry =
  ref_field :: "path_elem list"
  ref_value :: yval

record reference_check = outcome +
  broken :: bool
  target_exists :: bool

record reference_result = outcome +
  broken_references :: "ref_entry list"
  missing_targets :: "ref_entry list"

section \<open>The dependency graph\<close>

text \<open>
  \<^verbatim>\<open>nx.DiGraph\<close>: a set of nodes and a set of directed edges, both kept in
  insertion order. \<^verbatim>\<open>add_node\<close> and \<^verbatim>\<open>add_edge\<close> do nothing for what is
  already there; \<^verbatim>\<open>add_edge\<close> adds its two end points as nodes. \<^verbatim>\<open>None\<close> is
  refused as a node (\<^verbatim>\<open>ValueError\<close>), an unhashable value raises
  \<^verbatim>\<open>TypeError\<close>.
\<close>

record graph =
  g_nodes :: "node list"
  g_edges :: "(node \<times> node) list"

definition empty_graph :: graph where
  "empty_graph = \<lparr>g_nodes = [], g_edges = []\<rparr>"

fun node_of :: "yval \<Rightarrow> py_error + node" where
  "node_of (YStr s) = Inr (NStr s)"
| "node_of (YInt n) = Inr (NInt n)"
| "node_of (YBool b) = Inr (NInt (if b then 1 else 0))"
| "node_of YNull = Inl ValueError"
| "node_of (YList xs) = Inl TypeError"
| "node_of (YMap kvs) = Inl TypeError"

definition insert_node :: "node \<Rightarrow> graph \<Rightarrow> graph" where
  "insert_node n g = (if n \<in> set (g_nodes g) then g else g\<lparr>g_nodes := g_nodes g @ [n]\<rparr>)"

definition add_node :: "graph \<Rightarrow> yval \<Rightarrow> py_error + graph" where
  "add_node g v = ebind (node_of v) (\<lambda>n. Inr (insert_node n g))"

definition insert_edge :: "node \<Rightarrow> node \<Rightarrow> graph \<Rightarrow> graph" where
  "insert_edge u v g =
     (let g' = insert_node v (insert_node u g)
      in if (u, v) \<in> set (g_edges g') then g' else g'\<lparr>g_edges := g_edges g' @ [(u, v)]\<rparr>)"

text \<open>The source node \<open>u\<close> is in the graph already when the edges are added.\<close>

definition add_edge :: "graph \<Rightarrow> node \<Rightarrow> yval \<Rightarrow> py_error + graph" where
  "add_edge g u v = ebind (node_of v) (\<lambda>n. Inr (insert_edge u n g))"

text \<open>
  \<^verbatim>\<open>nx.find_cycles(self.dependency_graph)\<close>. The library is not part of the
  sources. Its module exports \<^verbatim>\<open>find_cycle\<close> and \<^verbatim>\<open>simple_cycles\<close> and has
  no attribute \<^verbatim>\<open>find_cycles\<close>, so evaluating the name raises
  \<^verbatim>\<open>AttributeError\<close> before any search is made, whatever the graph.
\<close>

definition nx_find_cycles :: "graph \<Rightarrow> py_error + node list list" where
  "nx_find_cycles g = Inl AttributeError"

section \<open>DependencyValidator\<close>

text \<open>\<^verbatim>\<open>any(re.match(pattern, value) for pattern in patterns)\<close>\<close>

fun py_any_match :: "rx list \<Rightarrow> yval \<Rightarrow> py_error + bool" where
  "py_any_match [] v = Inr False"
| "py_any_match (p # ps) v =
     ebind (py_re_match p v) (\<lambda>ok. if ok then Inr True else py_any_match ps v)"

definition version_constraint_patterns :: "rx list" where
  "version_constraint_patterns =
     [rx_semver,
      Seq (Chr CHR ''^'') rx_semver,
      Seq (Chr CHR ''~'') rx_semver,
      seqs [Chr CHR ''>'', Chr CHR ''='', rx_semver],
      seqs [Chr CHR ''<'', Chr CHR ''='', rx_semver]]"

definition is_valid_version_constraint :: "yval \<Rightarrow> py_error + bool" where
  "is_valid_version_constraint version = py_any_match version_constraint_patterns version"

definition validate_single_dependency :: "config \<Rightarrow> yval \<Rightarrow> nat \<Rightarrow> py_error + dependency_core" where
  "validate_single_dependency cfg dep index =
     (if \<not> is_dict dep then
        Inr \<lparr>valid = False, errors = [DependencyMustBeObject index], warnings = [],
             missing_dependencies = [], invalid_versions = []\<rparr>
      else
        ebind (missing_fields [''artifact'', ''purpose''] dep) (\<lambda>missing.
        ebind (py_contains ''artifact'' dep) (\<lambda>has_artifact.
        ebind (if has_artifact \<and> artifact_registry cfg \<noteq> [] then
                 ebind (py_getitem dep ''artifact'') (\<lambda>artifact_name.
                   if \<not> hashable artifact_name then Inl TypeError
                   else Inr (if artifact_name \<notin> YStr ` set (artifact_registry cfg)
                             then [artifact_name] else []))
               else Inr []) (\<lambda>not_found.
        ebind (py_contains ''version'' dep) (\<lambda>has_version.
        ebind (if has_version then
                 ebind (py_getitem dep ''version'') (\<lambda>version.
                 ebind (is_valid_version_constraint version) (\<lambda>ok.
                   Inr (if ok then [] else [version])))
               else Inr []) (\<lambda>bad_versions.
          Inr \<lparr>valid = (missing = []),
               errors = map (DependencyMissingRequiredField index) missing,
               warnings = map DependencyNotInRegistry not_found
                          @ map InvalidVersionConstraint bad_versions,
               missing_dependencies = not_found,
               invalid_versions = bad_versions\<rparr>))))))"

definition empty_dependency_result :: dependency_result where
  "empty_dependency_result =
     \<lparr>valid = True, errors = [], warnings = [], missing_dependencies = [],
      invalid_versions = [], circular_dependencies = []\<rparr>"

definition merge_dependency :: "dependency_result \<Rightarrow> dependency_core \<Rightarrow> dependency_result" where
  "merge_dependency r d =
     r\<lparr>valid := valid r \<and> valid d,
       errors := errors r @ (if valid d then [] else errors d),
       warnings := warnings r @ warnings d,
       missing_dependencies := missing_dependencies r @ missing_dependencies d,
       invalid_versions := invalid_versions r @ invalid_versions d\<rparr>"

text \<open>
  The loop over \<^verbatim>\<open>enumerate(dependencies)\<close>. The graph is mutated in place, so
  an exception leaves the edges added before it.
\<close>

fun dependency_loop ::
  "config \<Rightarrow> node \<Rightarrow> nat \<Rightarrow> yval list \<Rightarrow> dependency_result \<Rightarrow> graph
     \<Rightarrow> (py_error + dependency_result) \<times> graph" where
  "dependency_loop cfg u i [] r g = (Inr r, g)"
| "dependency_loop cfg u i (dep # deps) r g =
     (case validate_single_dependency cfg dep i of
        Inl e \<Rightarrow> (Inl e, g)
      | Inr d \<Rightarrow>
          (case py_contains ''artifact'' dep of
             Inl e \<Rightarrow> (Inl e, g)
           | Inr has_artifact \<Rightarrow>
               if \<not> has_artifact then dependency_loop cfg u (Suc i) deps (merge_dependency r d) g
               else
                 (case py_getitem dep ''artifact'' of
                    Inl e \<Rightarrow> (Inl e, g)
                  | Inr target \<Rightarrow>
                      (case add_edge g u target of
                         Inl e \<Rightarrow> (Inl e, g)
                       | Inr g' \<Rightarrow>
                           dependency_loop cfg u (Suc i) deps (merge_dependency r d) g'))))"

text \<open>\<^verbatim>\<open>artifact.get("metadata", {}).get("name", "unknown")\<close>\<close>

definition artifact_name_of :: "yval \<Rightarrow> py_error + yval" where
  "artifact_name_of artifact =
     ebind (py_get artifact ''metadata'' (YMap [])) (\<lambda>metadata.
       py_get metadata ''name'' (YStr ''unknown''))"

text \<open>
  The cycle check that ends \<^verbatim>\<open>validate_dependencies\<close>: the
  \<^verbatim>\<open>try\<close> catches \<^verbatim>\<open>nx.NetworkXError\<close> only, every other exception
  leaves the method.
\<close>

definition check_cycles :: "graph \<Rightarrow> dependency_result \<Rightarrow> py_error + dependency_result" where
  "check_cycles g r =
     (case nx_find_cycles g of
        Inl NetworkXError \<Rightarrow> Inr r
      | Inl e \<Rightarrow> Inl e
      | Inr cycles \<Rightarrow>
          Inr (if cycles \<noteq> [] then
                 r\<lparr>valid := False, errors := errors r @ [CircularDependenciesDetected cycles],
                   circular_dependencies := cycles\<rparr>
               else r))"

text \<open>
  \<^verbatim>\<open>DependencyValidator.validate_dependencies\<close>: the graph of the instance goes
  in, and comes out with the nodes and edges this call added.
\<close>

definition validate_dependencies ::
  "config \<Rightarrow> graph \<Rightarrow> yval \<Rightarrow> (py_error + dependency_result) \<times> graph" where
  "validate_dependencies cfg g artifact =
     (case py_contains ''dependsOn'' artifact of
        Inl e \<Rightarrow> (Inl e, g)
      | Inr has_deps \<Rightarrow>
          if \<not> has_deps then (Inr empty_dependency_result, g)
          else
            (case py_getitem artifact ''dependsOn'' of
               Inl e \<Rightarrow> (Inl e, g)
             | Inr dependencies \<Rightarrow>
                 (case dependencies of
                    YList deps \<Rightarrow>
                      (case artifact_name_of artifact of
                         Inl e \<Rightarrow> (Inl e, g)
                       | Inr name \<Rightarrow>
                           (case node_of name of
                              Inl e \<Rightarrow> (Inl e, g)
                            | Inr u \<Rightarrow>
                                (case dependency_loop cfg u 0 deps empty_dependency_result
                                        (insert_node u g) of
                                   (Inl e, g') \<Rightarrow> (Inl e, g')
                                 | (Inr r, g') \<Rightarrow> (check_cycles g' r, g'))))
                  | _ \<Rightarrow>
                      (Inr (empty_dependency_result
                             \<lparr>valid := False, errors := [DependsOnMustBeArray]\<rparr>), g))))"

section \<open>SemanticTypeValidator\<close>

record type_schema =
  required_fields :: "string list"
  optional_fields :: "string list"
  can_depend_on :: "string list"

definition semantic_type_schemas :: "(string \<times> type_schema) list" where
  "semantic_type_schemas =
     [(''manifest'',
         \<lparr>required_fields = [''apiVersion'', ''kind'', ''metadata'', ''spec''],
          optional_fields = [''dependsOn'', ''governance''],
          can_depend_on = [''schema'', ''spec'', ''governance'', ''policy'']\<rparr>),
      (''schema'',
         \<lparr>required_fields = [''apiVersion'', ''kind'', ''metadata'', ''schema''],
          optional_fields = [''dependsOn''],
          can_depend_on = [''manifest'', ''governance'']\<rparr>),
      (''spec'',
         \<lparr>required_fields = [''apiVersion'', ''kind'', ''metadata'', ''specification''],
          optional_fields = [''dependsOn'', ''examples''],
          can_depend_on = [''manifest'', ''schema'', ''governance'']\<rparr>),
      (''governance'',
         \<lparr>required_fields = [''apiVersion'', ''kind'', ''metadata'', ''policies''],
          optional_fields = [''dependsOn'', ''roles''],
          can_depend_on = [''manifest'']\<rparr>),
      (''policy'',
         \<lparr>required_fields = [''apiVersion'', ''kind'', ''metadata'', ''rules''],
          optional_fields = [''dependsOn''],
          can_depend_on = [''manifest'', ''governance'']\<rparr>),
      (''role'',
         \<lparr>required_fields = [''apiVersion'', ''kind'', ''metadata'', ''permissions''],
          optional_fields = [''dependsOn''],
          can_depend_on = [''manifest'', ''governance'', ''policy'']\<rparr>),
      (''toolchain'',
         \<lparr>required_fields = [''apiVersion'', ''kind'', ''metadata'', ''tools''],
          optional_fields = [''dependsOn''],
          can_depend_on = [''manifest'', ''spec'', ''schema'']\<rparr>),
      (''index'',
         \<lparr>required_fields = [''apiVersion'', ''kind'', ''metadata'', ''artifacts''],
          optional_fields = [''dependsOn''],
          can_depend_on = [''manifest'', ''schema'']\<rparr>),
      (''documentation'',
         \<lparr>required_fields = [''apiVersion'', ''kind'', ''metadata'', ''content''],
          optional_fields = [''dependsOn''],
          can_depend_on = [''manifest'', ''spec'', ''examples'']\<rparr>)]"

text \<open>
  \<^verbatim>\<open>semantic_type in self.semantic_type_schemas\<close> and the lookup that follows:
  the keys are strings, so only a string can be found.
\<close>

fun schema_of :: "yval \<Rightarrow> type_schema option" where
  "schema_of (YStr s) = map_of semantic_type_schemas s"
| "schema_of v = None"

definition common_fields :: "string list" where
  "common_fields = [''apiVersion'', ''kind'', ''metadata'', ''dependsOn'']"

definition validate_against_semantic_schema ::
  "yval \<Rightarrow> yval \<Rightarrow> type_schema \<Rightarrow> py_error + msg list" where
  "validate_against_semantic_schema artifact semantic_type schema =
     ebind (missing_fields (required_fields schema) artifact) (\<lambda>missing.
     ebind (py_iter artifact) (\<lambda>fields.
       if \<not> list_all hashable fields then Inl TypeError
       else
         (let allowed_fields = required_fields schema @ optional_fields schema @ common_fields
          in Inr (map (MissingRequiredFieldFor semantic_type) missing
                  @ map (UnexpectedFieldFor semantic_type)
                      (filter (\<lambda>f. f \<notin> YStr ` set allowed_fields) fields)))))"

fun relationship_loop :: "yval \<Rightarrow> string list \<Rightarrow> yval list \<Rightarrow> py_error + msg list" where
  "relationship_loop semantic_type allowed [] = Inr []"
| "relationship_loop semantic_type allowed (dep # deps) =
     ebind (py_contains ''semanticType'' dep) (\<lambda>has_type.
     ebind (if has_type then
              ebind (py_getitem dep ''semanticType'') (\<lambda>dep_type.
                Inr (if dep_type \<notin> YStr ` set allowed
                     then [CannotDependOn semantic_type dep_type allowed] else []))
            else Inr []) (\<lambda>here.
     ebind (relationship_loop semantic_type allowed deps) (\<lambda>rest.
       Inr (here @ rest))))"

definition validate_semantic_relationships ::
  "yval \<Rightarrow> yval \<Rightarrow> type_schema \<Rightarrow> py_error + msg list" where
  "validate_semantic_relationships artifact semantic_type schema =
     ebind (py_contains ''dependsOn'' artifact) (\<lambda>has_deps.
       if \<not> has_deps then Inr []
       else
         ebind (py_getitem artifact ''dependsOn'') (\<lambda>depends_on.
         ebind (py_iter depends_on) (\<lambda>deps.
           relationship_loop semantic_type (can_depend_on schema) deps)))"

definition semantic_failure :: "msg \<Rightarrow> semantic_result" where
  "semantic_failure m =
     \<lparr>valid = False, errors = [m], warnings = [],
      type_violations = [], relationship_violations = []\<rparr>"

definition validate_semantic_consistency :: "yval \<Rightarrow> py_error + semantic_result" where
  "validate_semantic_consistency artifact =
     ebind (py_contains ''metadata'' artifact) (\<lambda>has_metadata.
     ebind (if \<not> has_metadata then Inr True
            else
              ebind (py_getitem artifact ''metadata'') (\<lambda>metadata.
              ebind (py_contains ''semanticType'' metadata) (\<lambda>has_type.
                Inr (\<not> has_type)))) (\<lambda>type_missing.
       if type_missing then Inr (semantic_failure MissingSemanticType)
       else
         ebind (py_getitem artifact ''metadata'') (\<lambda>metadata.
         ebind (py_getitem metadata ''semanticType'') (\<lambda>semantic_type.
           if \<not> hashable semantic_type then Inl TypeError
           else
             (case schema_of semantic_type of
                None \<Rightarrow> Inr (semantic_failure (InvalidSemanticType semantic_type))
              | Some schema \<Rightarrow>
                  ebind (validate_against_semantic_schema artifact semantic_type schema)
                    (\<lambda>schema_violations.
                  ebind (py_contains ''dependsOn'' artifact) (\<lambda>has_deps.
                  ebind (if has_deps
                         then validate_semantic_relationships artifact semantic_type schema
                         else Inr []) (\<lambda>violations.
                    Inr \<lparr>valid = (schema_violations = []),
                         errors = schema_violations,
                         warnings = violations,
                         type_violations = schema_violations,
                         relationship_violations = violations\<rparr>))))))))"

section \<open>NamingSpecificationValidator\<close>

definition lit :: "string \<Rightarrow> rx" where
  "lit s = seqs (map Chr s)"

text \<open>\<^verbatim>\<open>[a-z0-9]+([.-][a-z0-9]+)*\<close>, the tail every namespace pattern shares.\<close>

definition rx_labels :: rx where
  "rx_labels = Seq (Plus (Cls (lower @ digit)))
                   (Star (Seq (Cls ''.-'') (Plus (Cls (lower @ digit)))))"

record namespace_format =
  nf_pattern :: rx
  verification_required :: bool

text \<open>The entries of \<^verbatim>\<open>naming_rules["namespace_formats"]\<close>, in order.\<close>

definition namespace_formats :: "namespace_format list" where
  "namespace_formats =
     [\<lparr>nf_pattern = Seq (lit ''io.github.'') rx_labels, verification_required = True\<rparr>,
      \<lparr>nf_pattern = Seq (lit ''com.'') rx_labels, verification_required = True\<rparr>,
      \<lparr>nf_pattern = Seq (lit ''org.'') rx_labels, verification_required = True\<rparr>]"

datatype rule_value = RulePattern rx | RuleNumber nat | RuleWords "string list"

text \<open>\<^verbatim>\<open>naming_rules["artifact_patterns"]\<close>, with the keys the source gives it.\<close>

definition artifact_patterns :: "(string \<times> rule_value) list" where
  "artifact_patterns =
     [(''format'', RulePattern (Plus (Cls (lower @ digit @ ''-'')))),
      (''max_length'', RuleNumber 50),
      (''min_length'', RuleNumber 3),
      (''reserved_words'', RuleWords [''mcp'', ''system'', ''core'', ''api'', ''internal''])]"

definition artifact_rule :: "string \<Rightarrow> py_error + rule_value" where
  "artifact_rule k = (case map_of artifact_patterns k of None \<Rightarrow> Inl (KeyError k) | Some v \<Rightarrow> Inr v)"

datatype version_kind = Semver | Prerelease | Build

text \<open>\<^verbatim>\<open>naming_rules["version_patterns"]\<close>, in order.\<close>

definition version_patterns :: "(version_kind \<times> rx) list" where
  "version_patterns =
     [(Semver, rx_semver),
      (Prerelease, seqs [rx_semver, Chr CHR ''-'', Plus (Cls (lower @ upper @ digit @ ''-''))]),
      (Build, seqs [rx_semver, Chr CHR ''+'', Plus (Cls (lower @ upper @ digit @ ''-''))])]"

text \<open>
  The loop of \<^verbatim>\<open>_validate_naming_registry\<close> over the namespace formats: the
  first pattern that matches ends the loop. The result is \<^verbatim>\<open>namespace_valid\<close>
  and the warnings added.
\<close>

fun namespace_loop ::
  "namespace_format list \<Rightarrow> yval \<Rightarrow> yval \<Rightarrow> py_error + (bool \<times> msg list)" where
  "namespace_loop [] naming_registry namespace = Inr (False, [])"
| "namespace_loop (pattern_info # rest) naming_registry namespace =
     ebind (py_re_match (nf_pattern pattern_info) namespace) (\<lambda>matched.
       if matched then
         (if verification_required pattern_info then
            ebind (py_contains ''verificationStatus'' naming_registry) (\<lambda>has_status.
              if \<not> has_status then Inr (True, [NamespaceRequiresVerification namespace])
              else
                ebind (py_get naming_registry ''verificationStatus'' YNull) (\<lambda>st.
                  Inr (True, if st \<noteq> YStr ''verified''
                             then [NamespaceNotVerified namespace] else [])))
          else Inr (True, []))
       else namespace_loop rest naming_registry namespace)"

definition validate_naming_registry :: "yval \<Rightarrow> py_error + outcome" where
  "validate_naming_registry naming_registry =
     ebind (py_get naming_registry ''format'' YNull) (\<lambda>fmt.
     ebind (py_get naming_registry ''namespace'' (YStr [])) (\<lambda>namespace.
     ebind (namespace_loop namespace_formats naming_registry namespace) (\<lambda>(namespace_valid, warns).
       let format_errors = (if fmt \<noteq> YStr ''reverse-DNS'' then [NamingRegistryFormatMust] else []);
           namespace_errors = (if \<not> namespace_valid then [InvalidNamespaceFormat namespace] else [])
       in Inr \<lparr>valid = (fmt = YStr ''reverse-DNS'' \<and> namespace_valid),
               errors = format_errors @ namespace_errors,
               warnings = warns\<rparr>)))"

text \<open>
  \<^verbatim>\<open>_validate_artifact_name\<close> reads its rules by key; its first statement asks
  for the key \<^verbatim>\<open>"pattern"\<close>.
\<close>

definition validate_artifact_name :: "yval \<Rightarrow> py_error + outcome" where
  "validate_artifact_name name =
     ebind (artifact_rule ''pattern'') (\<lambda>pattern.
     ebind (case pattern of RulePattern p \<Rightarrow> py_re_match p name | _ \<Rightarrow> Inl TypeError) (\<lambda>ok.
     ebind (artifact_rule ''max_length'') (\<lambda>max_rule.
     ebind (artifact_rule ''min_length'') (\<lambda>min_rule.
     ebind (py_len name) (\<lambda>n.
     ebind (artifact_rule ''reserved_words'') (\<lambda>reserved_rule.
       let max_len = (case max_rule of RuleNumber k \<Rightarrow> k | _ \<Rightarrow> 0);
           min_len = (case min_rule of RuleNumber k \<Rightarrow> k | _ \<Rightarrow> 0);
           reserved = (case reserved_rule of RuleWords ws \<Rightarrow> ws | _ \<Rightarrow> []);
           errs = (if ok then [] else [InvalidArtifactNameFormat name])
                  @ (if n > max_len then [ArtifactNameTooLong max_len] else [])
                  @ (if n < min_len then [ArtifactNameTooShort min_len] else [])
       in Inr \<lparr>valid = (errs = []),
               errors = errs,
               warnings = (if name \<in> YStr ` set reserved then [ArtifactNameReserved name] else [])\<rparr>))))))"

fun version_loop :: "(version_kind \<times> rx) list \<Rightarrow> yval \<Rightarrow> py_error + (bool \<times> msg list)" where
  "version_loop [] version = Inr (False, [])"
| "version_loop ((pattern_name, pattern) # rest) version =
     ebind (py_re_match pattern version) (\<lambda>matched.
       if matched then
         Inr (True, case pattern_name of
                      Prerelease \<Rightarrow> [UsingPrereleaseVersion]
                    | Build \<Rightarrow> [UsingBuildVersion]
                    | Semver \<Rightarrow> [])
       else version_loop rest version)"

definition validate_version :: "yval \<Rightarrow> py_error + outcome" where
  "validate_version version =
     ebind (version_loop version_patterns version) (\<lambda>(ok, warns).
       Inr \<lparr>valid = ok,
            errors = (if ok then [] else [InvalidVersionFormat version]),
            warnings = warns\<rparr>)"

text \<open>One optional part of \<^verbatim>\<open>validate_naming_specifications\<close>: run the check when the key is there.\<close>

definition naming_part ::
  "yval \<Rightarrow> string \<Rightarrow> (yval \<Rightarrow> py_error + outcome) \<Rightarrow> py_error + outcome option" where
  "naming_part metadata key check =
     ebind (py_contains key metadata) (\<lambda>present.
       if present then
         ebind (py_getitem metadata key) (\<lambda>v.
         ebind (check v) (\<lambda>r. Inr (Some r)))
       else Inr None)"

definition part_valid :: "outcome option \<Rightarrow> bool" where
  "part_valid p = (case p of None \<Rightarrow> True | Some r \<Rightarrow> valid r)"

definition part_errors :: "outcome option \<Rightarrow> msg list" where
  "part_errors p = (case p of None \<Rightarrow> [] | Some r \<Rightarrow> if valid r then [] else errors r)"

definition part_warnings :: "outcome option \<Rightarrow> msg list" where
  "part_warnings p = (case p of None \<Rightarrow> [] | Some r \<Rightarrow> warnings r)"

definition validate_naming_specifications :: "yval \<Rightarrow> py_error + naming_result" where
  "validate_naming_specifications artifact =
     ebind (py_contains ''metadata'' artifact) (\<lambda>has_metadata.
       if \<not> has_metadata then
         Inr \<lparr>valid = False, errors = [MissingMetadata], warnings = [],
              namespace_compliance = None, artifact_name_compliance = None,
              version_compliance = None\<rparr>
       else
         ebind (py_getitem artifact ''metadata'') (\<lambda>metadata.
         ebind (naming_part metadata ''namingRegistry'' validate_naming_registry) (\<lambda>namespace_result.
         ebind (naming_part metadata ''name'' validate_artifact_name) (\<lambda>name_result.
         ebind (naming_part metadata ''version'' validate_version) (\<lambda>version_result.
           Inr \<lparr>valid = (part_valid namespace_result \<and> part_valid name_result
                         \<and> part_valid version_result),
                errors = part_errors namespace_result @ part_errors name_result
                         @ part_errors version_result,
                warnings = part_warnings namespace_result @ part_warnings name_result
                           @ part_warnings version_result,
                namespace_compliance = namespace_result,
                artifact_name_compliance = name_result,
                version_compliance = version_result\<rparr>)))))"

section \<open>ReferenceValidator\<close>

definition is_reference_key :: "string \<Rightarrow> bool" where
  "is_reference_key key = (endswith key ''Ref'' \<or> endswith key ''Reference'')"

fun is_container :: "yval \<Rightarrow> bool" where
  "is_container (YMap kvs) = True"
| "is_container (YList xs) = True"
| "is_container v = False"

text \<open>
  \<^verbatim>\<open>_extract_references\<close>: the path is kept as the list of the keys and
  indices the source joins into \<^verbatim>\<open>a.b[0].c\<close>. A value under a reference key
  is recorded whatever its type, and not searched further.
\<close>

fun extract_references :: "path_elem list \<Rightarrow> yval \<Rightarrow> ref_entry list"
  and extract_entries :: "path_elem list \<Rightarrow> (string \<times> yval) list \<Rightarrow> ref_entry list"
  and extract_items :: "path_elem list \<Rightarrow> nat \<Rightarrow> yval list \<Rightarrow> ref_entry list" where
  "extract_references path (YMap kvs) = extract_entries path kvs"
| "extract_references path (YList xs) = extract_items path 0 xs"
| "extract_references path YNull = []"
| "extract_references path (YBool b) = []"
| "extract_references path (YInt n) = []"
| "extract_references path (YStr s) = []"
| "extract_entries path [] = []"
| "extract_entries path (kv # kvs) =
     (if is_reference_key (fst kv) then
        [\<lparr>ref_field = path @ [PKey (fst kv)], ref_value = snd kv\<rparr>]
      else if is_container (snd kv) then extract_references (path @ [PKey (fst kv)]) (snd kv)
      else [])
     @ extract_entries path kvs"
| "extract_items path i [] = []"
| "extract_items path i (item # items) =
     (if is_container item then extract_references (path @ [PIdx i]) item else [])
     @ extract_items path (Suc i) items"

text \<open>The two patterns of \<^verbatim>\<open>_is_valid_reference_format\<close>.\<close>

definition reference_patterns :: "rx list" where
  "reference_patterns = [rx_ns_name, rx_ns_name_version]"

definition is_valid_reference_format :: "string \<Rightarrow> bool" where
  "is_valid_reference_format reference = list_ex (\<lambda>p. re_match_anchored p reference) reference_patterns"

definition validate_reference :: "config \<Rightarrow> ref_entry \<Rightarrow> reference_check" where
  "validate_reference cfg reference =
     (case ref_value reference of
        YStr s \<Rightarrow>
          (let missing = (artifact_registry cfg \<noteq> [] \<and> s \<notin> set (artifact_registry cfg));
               ok = is_valid_reference_format s
           in \<lparr>valid = ok,
               errors = (if ok then [] else [InvalidReferenceFormat s]),
               warnings = (if missing then [ReferenceTargetNotFound s] else []),
               broken = (\<not> ok),
               target_exists = (\<not> missing)\<rparr>)
      | _ \<Rightarrow>
          \<lparr>valid = False,
           errors = [InvalidReferenceFormatAt (ref_field reference)],
           warnings = [],
           broken = True,
           target_exists = True\<rparr>)"

fun reference_loop :: "config \<Rightarrow> ref_entry list \<Rightarrow> reference_result \<Rightarrow> reference_result" where
  "reference_loop cfg [] r = r"
| "reference_loop cfg (ref # refs) r =
     (let c = validate_reference cfg ref
      in reference_loop cfg refs
           (r\<lparr>valid := valid r \<and> valid c,
              errors := errors r @ (if valid c then [] else errors c),
              warnings := warnings r @ warnings c,
              broken_references := broken_references r @ (if broken c then [ref] else []),
              missing_targets := missing_targets r @ (if target_exists c then [] else [ref])\<rparr>))"

definition validate_references :: "config \<Rightarrow> yval \<Rightarrow> reference_result" where
  "validate_references cfg artifact =
     reference_loop cfg (extract_references [] artifact)
       \<lparr>valid = True, errors = [], warnings = [], broken_references = [], missing_targets = []\<rparr>"

section \<open>ExtendedMCPValidator\<close>

text \<open>
  The report. The sections are absent (empty dictionaries) in the report of a file
  that could not be loaded. The elapsed time is left out.
\<close>

record report =
  status :: status
  artifact_type :: "yval option"
  report_errors :: "msg list"
  report_warnings :: "msg list"
  dependency_results :: "dependency_result option"
  semantic_results :: "semantic_result option"
  endpoint_results :: "outcome option"
  naming_results :: "naming_result option"
  reference_results :: "reference_result option"
  circular_dependency_detected :: bool
  dependency_count :: nat
  endpoint_count :: nat
  reference_count :: nat

definition load_failure_report :: "string \<Rightarrow> report" where
  "load_failure_report txt =
     \<lparr>status = FAILED, artifact_type = None,
      report_errors = [FailedToLoadArtifact (LoadError txt)], report_warnings = [],
      dependency_results = None, semantic_results = None, endpoint_results = None,
      naming_results = None, reference_results = None,
      circular_dependency_detected = False,
      dependency_count = 0, endpoint_count = 0, reference_count = 0\<rparr>"

text \<open>
  Endpoint validation talks to the network, so what it returned (or raised) is an
  input: \<open>None\<close> when \<^verbatim>\<open>validate_endpoints\<close> is off, which is the default.
\<close>

definition endpoint_stage :: "(py_error + outcome) option \<Rightarrow> py_error + outcome" where
  "endpoint_stage ep =
     (case ep of None \<Rightarrow> Inr \<lparr>valid = True, errors = [], warnings = []\<rparr> | Some r \<Rightarrow> r)"

text \<open>
  The part of \<^verbatim>\<open>validate_artifact_extended\<close> after the dependency validator
  has returned: the other validators (the reference validator raises nothing, so it
  is written last), the merge in the fixed order (base validator, dependencies,
  semantic types, naming, references, endpoints), the status and the counters.
\<close>

definition assemble_report ::
  "config \<Rightarrow> yval \<Rightarrow> bool \<Rightarrow> (py_error + outcome) option \<Rightarrow> basic_result
     \<Rightarrow> dependency_result \<Rightarrow> py_error + report" where
  "assemble_report cfg artifact strict ep basic deps =
     ebind (validate_semantic_consistency artifact) (\<lambda>sem.
     ebind (validate_naming_specifications artifact) (\<lambda>naming.
     ebind (endpoint_stage ep) (\<lambda>endpoints.
     ebind (py_get artifact ''dependsOn'' (YList [])) (\<lambda>d.
     ebind (py_len d) (\<lambda>n_deps.
     ebind (py_get artifact ''endpoints'' (YList [])) (\<lambda>e.
     ebind (py_len e) (\<lambda>n_endpoints.
     ebind (py_get artifact ''kind'' (YStr ''Unknown'')) (\<lambda>kind.
       let refs = validate_references cfg artifact;
           errs = b_errors basic @ errors deps @ errors sem @ errors naming @ errors refs
                  @ errors endpoints;
           warns = b_warnings basic @ warnings deps @ warnings sem @ warnings naming
                   @ warnings refs @ warnings endpoints
       in Inr \<lparr>status = determine_status errs warns strict,
               artifact_type = Some kind,
               report_errors = errs,
               report_warnings = warns,
               dependency_results = Some deps,
               semantic_results = Some sem,
               endpoint_results = Some endpoints,
               naming_results = Some naming,
               reference_results = Some refs,
               circular_dependency_detected = (circular_dependencies deps \<noteq> []),
               dependency_count = n_deps,
               endpoint_count = n_endpoints,
               reference_count = length (broken_references refs)\<rparr>))))))))"

text \<open>
  \<^verbatim>\<open>validate_artifact_extended\<close>, on the validator instance whose dependency
  graph is \<open>g\<close>; the graph comes back as the call left it. The base validator reads
  the same file again.
\<close>

definition validate_artifact_extended ::
  "config \<Rightarrow> graph \<Rightarrow> source_file \<Rightarrow> bool \<Rightarrow> (py_error + outcome) option
     \<Rightarrow> (py_error + report) \<times> graph" where
  "validate_artifact_extended cfg g file strict ep =
     (case file of
        LoadFails txt \<Rightarrow> (Inr (load_failure_report txt), g)
      | Parsed artifact \<Rightarrow>
          (let basic = validate_artifact cfg file strict
           in case validate_dependencies cfg g artifact of
                (Inl e, g') \<Rightarrow> (Inl e, g')
              | (Inr deps, g') \<Rightarrow> (assemble_report cfg artifact strict ep basic deps, g')))"



section \<open>Concrete inputs and auxiliary notions\<close>

text \<open>A validator built with no registry and no schema file.\<close>

definition empty_config :: config where
  "empty_config = \<lparr>artifact_registry = [], schema_check = None\<rparr>"

text \<open>The document of the scenario: a manifest with one dependency.\<close>

definition c2_document :: yval where
  "c2_document =
     YMap [(''apiVersion'', YStr ''v1''),
           (''kind'', YStr ''Manifest''),
           (''metadata'', YMap [(''name'', YStr ''test-artifact''),
                                (''version'', YStr ''1.0.0''),
                                (''semanticType'', YStr ''manifest'')]),
           (''spec'', YMap []),
           (''dependsOn'', YList [YMap [(''artifact'', YStr ''a''), (''purpose'', YStr ''config'')]])]"



text \<open>The two artifacts of the repository's test for circular dependencies.\<close>

definition artifact_a :: yval where
  "artifact_a =
     YMap [(''metadata'', YMap [(''name'', YStr ''artifact-a'')]),
           (''dependsOn'', YList [YMap [(''artifact'', YStr ''artifact-b''),
                                        (''purpose'', YStr ''reference'')]])]"

definition artifact_b :: yval where
  "artifact_b =
     YMap [(''metadata'', YMap [(''name'', YStr ''artifact-b'')]),
           (''dependsOn'', YList [YMap [(''artifact'', YStr ''artifact-a''),
                                        (''purpose'', YStr ''reference'')]])]"

text \<open>
  The graph of one validator after the first artifact and after both, and the graph of
  a fresh validator after the second artifact alone.
\<close>

definition graph_after_a :: graph where
  "graph_after_a =
     \<lparr>g_nodes = [NStr ''artifact-a'', NStr ''artifact-b''],
      g_edges = [(NStr ''artifact-a'', NStr ''artifact-b'')]\<rparr>"

definition graph_after_b :: graph where
  "graph_after_b =
     \<lparr>g_nodes = [NStr ''artifact-a'', NStr ''artifact-b''],
      g_edges = [(NStr ''artifact-a'', NStr ''artifact-b''),
                 (NStr ''artifact-b'', NStr ''artifact-a'')]\<rparr>"



text \<open>The naming registry and the artifact of the repository's test for an invalid namespace.\<close>

definition invalid_namespace_registry :: yval where
  "invalid_namespace_registry =
     YMap [(''format'', YStr ''reverse-DNS''), (''namespace'', YStr ''invalid-namespace'')]"

definition invalid_namespace_artifact :: yval where
  "invalid_namespace_artifact =
     YMap [(''metadata'', YMap [(''name'', YStr ''test-artifact''),
                                (''version'', YStr ''1.0.0''),
                                (''namingRegistry'', invalid_namespace_registry)])]"

text \<open>The same artifact without its name.\<close>

definition nameless_invalid_namespace_artifact :: yval where
  "nameless_invalid_namespace_artifact =
     YMap [(''metadata'', YMap [(''version'', YStr ''1.0.0''),
                                (''namingRegistry'', invalid_namespace_registry)])]"

text \<open>A well-formed namespace with no verification status, alone and in an artifact.\<close>

definition unverified_registry :: yval where
  "unverified_registry =
     YMap [(''format'', YStr ''reverse-DNS''), (''namespace'', YStr ''io.github.username'')]"

definition unverified_namespace_artifact :: yval where
  "unverified_namespace_artifact =
     YMap [(''metadata'', YMap [(''name'', YStr ''test-artifact''),
                                (''version'', YStr ''1.0.0''),
                                (''namingRegistry'', unverified_registry)])]"




text \<open>The namespace matches one of the configured patterns, as \<^verbatim>\<open>re.match\<close> decides.\<close>

definition namespace_matches :: "string \<Rightarrow> bool" where
  "namespace_matches ns = list_ex (\<lambda>f. re_match_anchored (nf_pattern f) ns) namespace_formats"

text \<open>
  The grammar of a reference as the specification words it:
  \<^verbatim>\<open>namespace/artifact-name\<close> or \<^verbatim>\<open>namespace/artifact-name:X.Y.Z\<close>, with
  lowercase letters, digits, dots and hyphens in the namespace, lowercase letters,
  digits and hyphens in the name, and three numbers in the version.
\<close>

definition namespace_part :: "string \<Rightarrow> bool" where
  "namespace_part ns = (ns \<noteq> [] \<and> set ns \<subseteq> set (lower @ digit @ ''.-''))"

definition name_part :: "string \<Rightarrow> bool" where
  "name_part nm = (nm \<noteq> [] \<and> set nm \<subseteq> set (lower @ digit @ ''-''))"

definition number_part :: "string \<Rightarrow> bool" where
  "number_part x = (x \<noteq> [] \<and> set x \<subseteq> set digit)"

definition reference_grammar :: "string \<Rightarrow> bool" where
  "reference_grammar s =
     ((\<exists>ns nm. s = ns @ ''/'' @ nm \<and> namespace_part ns \<and> name_part nm)
      \<or> (\<exists>ns nm x y z. s = ns @ ''/'' @ nm @ '':'' @ x @ ''.'' @ y @ ''.'' @ z \<and>
            namespace_part ns \<and> name_part nm \<and>
            number_part x \<and> number_part y \<and> number_part z))"

text \<open>A reference with a newline at its end, as a quoted or block scalar gives it.\<close>

definition newline_reference :: ref_entry where
  "newline_reference = \<lparr>ref_field = [PKey ''configRef''], ref_value = YStr (''a/b'' @ [CHR 0x0A])\<rparr>"

section \<open>Basic facts\<close>

lemma ebind_Inl [simp]: "ebind (Inl e) f = Inl e"
  by (simp add: ebind_def)

lemma ebind_Inr [simp]: "ebind (Inr x) f = f x"
  by (simp add: ebind_def)

lemma ebind_eq_Inr: "(ebind m f = Inr y) = (\<exists>x. m = Inr x \<and> f x = Inr y)"
  by (cases m) simp_all

lemma basic_failure_fields [simp]:
  "b_errors (basic_failure ty es ws e) = es @ [FailedToLoadArtifact e]"
  "b_warnings (basic_failure ty es ws e) = ws"
  by (simp_all add: basic_failure_def)

lemmas eval_defs =
  validate_artifact_extended_def validate_artifact_def validate_dependencies_def
  assemble_report_def validate_structure_def validate_naming_def validate_dependencies_basic_def
  validate_semantic_type_def validate_semantic_consistency_def validate_naming_specifications_def
  validate_references_def endpoint_stage_def empty_dependency_result_def
  determine_status_def semantic_failure_def empty_config_def empty_graph_def basic_failure_def
  load_failure_report_def

lemmas rx_defs =
  re_match_anchored_def rx_semver_def rx_ns_name_def rx_ns_name_version_def Plus_def
  lower_def upper_def digit_def lit_def rx_labels_def

lemmas graph_defs =
  insert_node_def insert_edge_def add_node_def add_edge_def
  check_cycles_def nx_find_cycles_def artifact_name_of_def merge_dependency_def
  validate_single_dependency_def

section \<open>The dependency validator and its graph\<close>

lemma check_cycles_raises: "check_cycles g r = Inl AttributeError"
  by (simp add: check_cycles_def nx_find_cycles_def)







lemma validate_dependencies_list:
  assumes "py_getitem a ''dependsOn'' = Inr (YList deps)"
  shows "validate_dependencies cfg g a =
     (case artifact_name_of a of
        Inl e \<Rightarrow> (Inl e, g)
      | Inr name \<Rightarrow>
          (case node_of name of
             Inl e \<Rightarrow> (Inl e, g)
           | Inr u \<Rightarrow>
               (case dependency_loop cfg u 0 deps empty_dependency_result (insert_node u g) of
                  (Inl e, g') \<Rightarrow> (Inl e, g')
                | (Inr r, g') \<Rightarrow> (check_cycles g' r, g'))))"
proof -
  from assms obtain kvs where "a = YMap kvs"
    by (cases a) auto
  with assms show ?thesis
    by (auto simp: validate_dependencies_def split: option.splits)
qed


text \<open>
  With a list under \<^verbatim>\<open>dependsOn\<close> the method always reaches the cycle check
  or raises before it: it never returns.
\<close>

lemma validate_dependencies_list_raises:
  assumes "py_getitem a ''dependsOn'' = Inr (YList deps)"
  shows "\<exists>e. fst (validate_dependencies cfg g a) = Inl e"
  unfolding validate_dependencies_list [OF assms]
  by (auto simp: check_cycles_raises split: sum.splits prod.splits)



lemma artifact_a_dependencies:
  "validate_dependencies empty_config empty_graph artifact_a = (Inl AttributeError, graph_after_a)"
  by (simp add: artifact_a_def graph_after_a_def eval_defs graph_defs Let_def)

lemma artifact_b_after_a_dependencies:
  "validate_dependencies empty_config graph_after_a artifact_b
     = (Inl AttributeError, graph_after_b)"
  by (simp add: artifact_b_def graph_after_a_def graph_after_b_def eval_defs graph_defs Let_def)


text \<open>
  C1. On the two artifacts of the repository's test for circular dependencies,
  validated one after the other on one validator, \<^verbatim>\<open>validate_dependencies\<close>
  returns no result: the edges are added, then the cycle check asks the graph library
  for a function it does not have, and the \<^verbatim>\<open>AttributeError\<close> is not the
  exception the \<^verbatim>\<open>try\<close> catches. The same happens for every document whose
  \<^verbatim>\<open>dependsOn\<close> is a list, cyclic or not: no result is returned.
\<close>

theorem C1_circular_scenario:
  "validate_dependencies empty_config empty_graph artifact_a
     = (Inl AttributeError, graph_after_a)
   \<and> validate_dependencies empty_config graph_after_a artifact_b
     = (Inl AttributeError, graph_after_b)
   \<and> fst (validate_dependencies cfg g (YMap ((''dependsOn'', YList deps) # kvs))) \<noteq> Inr r"
proof -
  have "py_getitem (YMap ((''dependsOn'', YList deps) # kvs)) ''dependsOn'' = Inr (YList deps)"
    by simp
  then have "\<exists>e. fst (validate_dependencies cfg g (YMap ((''dependsOn'', YList deps) # kvs))) = Inl e"
    by (rule validate_dependencies_list_raises)
  then have "fst (validate_dependencies cfg g (YMap ((''dependsOn'', YList deps) # kvs))) \<noteq> Inr r"
    by auto
  with artifact_a_dependencies artifact_b_after_a_dependencies show ?thesis
    by simp
qed

section \<open>The report and its status\<close>

lemma assemble_report_status:
  "assemble_report cfg a strict ep basic deps = Inr r \<Longrightarrow>
     status r = determine_status (report_errors r) (report_warnings r) strict"
  by (auto simp: assemble_report_def ebind_eq_Inr Let_def)

lemma assemble_report_merge:
  "assemble_report cfg a strict ep basic deps = Inr r \<Longrightarrow>
     \<exists>sem naming refs endpoints.
       dependency_results r = Some deps \<and> semantic_results r = Some sem \<and>
       naming_results r = Some naming \<and> reference_results r = Some refs \<and>
       endpoint_results r = Some endpoints \<and>
       report_errors r = b_errors basic @ errors deps @ errors sem @ errors naming
                         @ errors refs @ errors endpoints \<and>
       report_warnings r = b_warnings basic @ warnings deps @ warnings sem @ warnings naming
                         @ warnings refs @ warnings endpoints"
  by (auto simp: assemble_report_def ebind_eq_Inr Let_def)

lemma extended_Parsed_Inr:
  "fst (validate_artifact_extended cfg g (Parsed a) strict ep) = Inr r \<Longrightarrow>
     \<exists>deps. fst (validate_dependencies cfg g a) = Inr deps \<and>
       assemble_report cfg a strict ep (validate_artifact cfg (Parsed a) strict) deps = Inr r"
  by (auto simp: validate_artifact_extended_def Let_def split: sum.splits prod.splits)

lemma extended_fst:
  "fst (validate_artifact_extended cfg g (Parsed a) strict ep)
     = (case fst (validate_dependencies cfg g a) of
          Inl e \<Rightarrow> Inl e
        | Inr deps \<Rightarrow> assemble_report cfg a strict ep (validate_artifact cfg (Parsed a) strict) deps)"
  by (simp add: validate_artifact_extended_def Let_def split: prod.splits sum.splits)


lemma extended_list_raises:
  assumes "py_getitem a ''dependsOn'' = Inr (YList deps)"
  shows "\<exists>e. fst (validate_artifact_extended cfg g (Parsed a) strict ep) = Inl e"
  using validate_dependencies_list_raises [OF assms, of cfg g]
  by (auto simp: extended_fst)

text \<open>
  When a report comes back, it merges the errors and the warnings of the base
  validator and of the five sections in that order, and its status follows the
  four-branch rule.
\<close>

lemma extended_status_rule:
  assumes "fst (validate_artifact_extended cfg g (Parsed a) strict ep) = Inr r"
  shows "\<exists>deps sem naming refs endpoints.
           dependency_results r = Some deps \<and> semantic_results r = Some sem \<and>
           naming_results r = Some naming \<and> reference_results r = Some refs \<and>
           endpoint_results r = Some endpoints \<and>
           report_errors r = b_errors (validate_artifact cfg (Parsed a) strict) @ errors deps
               @ errors sem @ errors naming @ errors refs @ errors endpoints \<and>
           report_warnings r = b_warnings (validate_artifact cfg (Parsed a) strict) @ warnings deps
               @ warnings sem @ warnings naming @ warnings refs @ warnings endpoints \<and>
           status r = (if report_errors r \<noteq> [] then FAILED
                       else if report_warnings r \<noteq> [] \<and> strict then FAILED
                       else if report_warnings r \<noteq> [] then WARNING
                       else PASSED)"
proof -
  from assms obtain deps where
    r: "assemble_report cfg a strict ep (validate_artifact cfg (Parsed a) strict) deps = Inr r"
    using extended_Parsed_Inr by blast
  have "status r = determine_status (report_errors r) (report_warnings r) strict"
    using r by (rule assemble_report_status)
  then have "status r = (if report_errors r \<noteq> [] then FAILED
                       else if report_warnings r \<noteq> [] \<and> strict then FAILED
                       else if report_warnings r \<noteq> [] then WARNING
                       else PASSED)"
    by (simp add: determine_status_def)
  with assemble_report_merge [OF r] show ?thesis
    by blast
qed

section \<open>Strict mode and failures of the loader\<close>

lemma validate_artifact_strict_errors:
  "b_errors (validate_artifact cfg file s1) = b_errors (validate_artifact cfg file s2)"
  by (simp add: validate_artifact_def Let_def split: source_file.splits sum.splits prod.splits)

lemma validate_artifact_strict_warnings:
  "b_warnings (validate_artifact cfg file s1) = b_warnings (validate_artifact cfg file s2)"
  by (simp add: validate_artifact_def Let_def split: source_file.splits sum.splits prod.splits)

lemma assemble_report_basic_cong:
  "b_errors b1 = b_errors b2 \<Longrightarrow> b_warnings b1 = b_warnings b2 \<Longrightarrow>
     assemble_report cfg a strict ep b1 deps = assemble_report cfg a strict ep b2 deps"
  by (simp add: assemble_report_def)

lemma assemble_report_strict:
  "assemble_report cfg a s1 ep basic deps = Inr r \<Longrightarrow>
     assemble_report cfg a s2 ep basic deps
       = Inr (r\<lparr>status := determine_status (report_errors r) (report_warnings r) s2\<rparr>)"
  by (auto simp: assemble_report_def ebind_eq_Inr Let_def)

text \<open>Strict mode changes nothing in a report but its status.\<close>

lemma extended_strict:
  assumes "fst (validate_artifact_extended cfg g file s1 ep) = Inr r"
  shows "fst (validate_artifact_extended cfg g file s2 ep)
           = Inr (r\<lparr>status := determine_status (report_errors r) (report_warnings r) s2\<rparr>)"
proof (cases "file")
  case (LoadFails t)
  with assms show ?thesis
    by (auto simp: validate_artifact_extended_def load_failure_report_def determine_status_def)
next
  case (Parsed a)
  with assms obtain deps where
    d: "fst (validate_dependencies cfg g a) = Inr deps" and
    r: "assemble_report cfg a s1 ep (validate_artifact cfg (Parsed a) s1) deps = Inr r"
    using extended_Parsed_Inr by blast
  have "assemble_report cfg a s1 ep (validate_artifact cfg (Parsed a) s2) deps = Inr r"
    using r assemble_report_basic_cong [OF validate_artifact_strict_errors validate_artifact_strict_warnings]
    by metis
  then have "assemble_report cfg a s2 ep (validate_artifact cfg (Parsed a) s2) deps
       = Inr (r\<lparr>status := determine_status (report_errors r) (report_warnings r) s2\<rparr>)"
    by (rule assemble_report_strict)
  with d Parsed show ?thesis
    by (auto simp: validate_artifact_extended_def Let_def split: sum.splits prod.splits)
qed

text \<open>
  C10. A file that parses to a value that is not a mapping makes
  \<^verbatim>\<open>validate_artifact_extended\<close> raise; the early return with a single
  error covers only a failure of the loader.
\<close>

theorem C10_load_and_non_mapping:
  "(\<not> is_dict d \<longrightarrow> (\<exists>e. fst (validate_artifact_extended cfg g (Parsed d) strict ep) = Inl e))
   \<and> validate_artifact_extended cfg g (LoadFails txt) strict ep
       = (Inr (load_failure_report txt), g)
   \<and> status (load_failure_report txt) = FAILED
   \<and> report_errors (load_failure_report txt) = [FailedToLoadArtifact (LoadError txt)]"
proof -
  have "\<exists>e. fst (validate_artifact_extended cfg g (Parsed d) strict ep) = Inl e" if "\<not> is_dict d"
    using that
    by (cases d; cases ep)
       (auto simp: validate_artifact_extended_def validate_dependencies_def assemble_report_def
          endpoint_stage_def ebind_def Let_def
          split: sum.splits prod.splits if_splits)
  then show ?thesis
    by (simp add: validate_artifact_extended_def load_failure_report_def)
qed

theorem C10_load_and_non_mapping_witness:
  "\<not> is_dict YNull
   \<and> fst (validate_artifact_extended empty_config empty_graph (Parsed YNull) False None)
       = Inl TypeError"
proof -
  have "\<not> is_dict YNull"
    by simp
  with C10_load_and_non_mapping [of YNull empty_config empty_graph False None]
  show ?thesis
    by (auto simp: validate_artifact_extended_def validate_dependencies_def Let_def)
qed

section \<open>The naming validator and the reports that can come back\<close>

lemma artifact_rule_pattern: "artifact_rule ''pattern'' = Inl (KeyError ''pattern'')"
  by (simp add: artifact_rule_def artifact_patterns_def)

lemma validate_artifact_name_raises: "validate_artifact_name name = Inl (KeyError ''pattern'')"
  by (simp add: validate_artifact_name_def artifact_rule_pattern)

lemma naming_with_name_raises:
  assumes "map_of kvs ''metadata'' = Some (YMap mkvs)" and "map_of mkvs ''name'' = Some v"
  shows "\<exists>e. validate_naming_specifications (YMap kvs) = Inl e"
  using assms
  by (auto simp: validate_naming_specifications_def naming_part_def validate_artifact_name_raises
        ebind_def split: sum.splits)

lemma missing_fields_Cons_absent:
  "py_contains f x = Inr False \<Longrightarrow> missing_fields (f # fs) x = Inr r \<Longrightarrow> r \<noteq> []"
  by (auto simp: ebind_eq_Inr)



section \<open>The scenario documents\<close>

lemma c2_basic:
  "b_errors (validate_artifact empty_config (Parsed c2_document) False)
       = [InvalidNameFormat (YStr ''test-artifact'')]"
  by (simp add: c2_document_def eval_defs rx_defs valid_types_def Let_def)

lemma c2_dependencies:
  "validate_dependencies empty_config empty_graph c2_document
     = (Inl AttributeError,
        \<lparr>g_nodes = [NStr ''test-artifact'', NStr ''a''],
         g_edges = [(NStr ''test-artifact'', NStr ''a'')]\<rparr>)"
  by (simp add: c2_document_def eval_defs graph_defs Let_def)

lemma c2_semantic:
  "validate_semantic_consistency c2_document
     = Inr \<lparr>valid = True, errors = [], warnings = [], type_violations = [],
            relationship_violations = []\<rparr>"
  by (simp add: c2_document_def eval_defs semantic_type_schemas_def common_fields_def
        validate_against_semantic_schema_def validate_semantic_relationships_def Let_def)

lemma c2_naming:
  "validate_naming_specifications c2_document = Inl (KeyError ''pattern'')"
  by (simp add: c2_document_def validate_naming_specifications_def naming_part_def
        validate_artifact_name_raises)

text \<open>
  C2. On the scenario document, with no registry and strict mode off, the call does not
  return a passed report. The dependency validator adds the edge, then its cycle check
  asks the graph library for a function it does not have, and the
  \<^verbatim>\<open>AttributeError\<close> leaves \<^verbatim>\<open>validate_artifact_extended\<close> uncaught.
  Two more defects stand behind it: the naming validator asks its rule table for the
  key \<^verbatim>\<open>"pattern"\<close>, which the table does not have, and raises
  \<^verbatim>\<open>KeyError\<close> on this document; and the base validator has recorded an
  error for the name, which has no \<^verbatim>\<open>namespace/\<close> part.
\<close>

theorem C2_scenario:
  "validate_artifact_extended empty_config empty_graph (Parsed c2_document) False None
     = (Inl AttributeError,
        \<lparr>g_nodes = [NStr ''test-artifact'', NStr ''a''],
         g_edges = [(NStr ''test-artifact'', NStr ''a'')]\<rparr>)
   \<and> b_errors (validate_artifact empty_config (Parsed c2_document) False)
       = [InvalidNameFormat (YStr ''test-artifact'')]
   \<and> validate_semantic_consistency c2_document
       = Inr \<lparr>valid = True, errors = [], warnings = [], type_violations = [],
              relationship_violations = []\<rparr>
   \<and> validate_naming_specifications c2_document = Inl (KeyError ''pattern'')"
  by (simp add: validate_artifact_extended_def c2_dependencies c2_basic c2_semantic c2_naming
        Let_def)






section \<open>The exit code\<close>



section \<open>The graph of the validator between calls\<close>






section \<open>Strict mode on the repository's test document\<close>




section \<open>Namespaces\<close>

lemma namespace_loop_string:
  assumes "\<forall>f\<in>set fs. verification_required f"
  shows "namespace_loop fs (YMap kvs) (YStr ns)
    = Inr (list_ex (\<lambda>f. re_match_anchored (nf_pattern f) ns) fs,
           if list_ex (\<lambda>f. re_match_anchored (nf_pattern f) ns) fs then
             (case map_of kvs ''verificationStatus'' of
                None \<Rightarrow> [NamespaceRequiresVerification (YStr ns)]
              | Some st \<Rightarrow> if st \<noteq> YStr ''verified'' then [NamespaceNotVerified (YStr ns)] else [])
           else [])"
  using assms by (induction fs) (auto split: option.splits)

text \<open>
  \<^verbatim>\<open>_validate_naming_registry\<close> by itself, for a naming registry whose
  namespace is a string: when the namespace matches none of the configured patterns,
  the result is invalid and holds the error \<^verbatim>\<open>Invalid namespace format\<close>;
  when it matches one (all of them require verification) and the verification status
  is absent or not \<^verbatim>\<open>verified\<close>, the result holds exactly one warning and no
  namespace error.
\<close>

lemma naming_registry_namespace:
  assumes "py_get naming_registry ''namespace'' (YStr []) = Inr (YStr ns)"
  shows "(\<not> namespace_matches ns \<longrightarrow>
           (\<exists>r. validate_naming_registry naming_registry = Inr r \<and> \<not> valid r \<and>
                 InvalidNamespaceFormat (YStr ns) \<in> set (errors r) \<and> warnings r = []))
       \<and> (namespace_matches ns \<and>
            py_get naming_registry ''verificationStatus'' YNull \<noteq> Inr (YStr ''verified'') \<longrightarrow>
           (\<exists>r. validate_naming_registry naming_registry = Inr r \<and>
                 (warnings r = [NamespaceRequiresVerification (YStr ns)] \<or>
                  warnings r = [NamespaceNotVerified (YStr ns)]) \<and>
                 InvalidNamespaceFormat (YStr ns) \<notin> set (errors r) \<and>
                 valid r = (py_get naming_registry ''format'' YNull = Inr (YStr ''reverse-DNS'')) \<and>
                 errors r = (if valid r then [] else [NamingRegistryFormatMust])))"
proof -
  from assms obtain kvs where nr: "naming_registry = YMap kvs"
    by (cases naming_registry) auto
  have v: "\<forall>f\<in>set namespace_formats. verification_required f"
    by (simp add: namespace_formats_def)
  show ?thesis
    using assms
    by (auto simp: nr validate_naming_registry_def namespace_loop_string [OF v]
          namespace_matches_def Let_def split: option.splits)
qed

lemma invalid_namespace_no_match: "\<not> namespace_matches ''invalid-namespace''"
  by code_simp

lemma username_matches: "namespace_matches ''io.github.username''"
  by code_simp

lemma invalid_namespace_registry_result:
  "validate_naming_registry invalid_namespace_registry
     = Inr \<lparr>valid = False, errors = [InvalidNamespaceFormat (YStr ''invalid-namespace'')],
            warnings = []\<rparr>"
proof -
  have v: "\<forall>f\<in>set namespace_formats. verification_required f"
    by (simp add: namespace_formats_def)
  show ?thesis
    using invalid_namespace_no_match
    by (simp add: invalid_namespace_registry_def validate_naming_registry_def
        namespace_loop_string [OF v] namespace_matches_def Let_def)
qed

lemma unverified_registry_result:
  "validate_naming_registry unverified_registry
     = Inr \<lparr>valid = True, errors = [],
            warnings = [NamespaceRequiresVerification (YStr ''io.github.username'')]\<rparr>"
proof -
  have v: "\<forall>f\<in>set namespace_formats. verification_required f"
    by (simp add: namespace_formats_def)
  show ?thesis
    using username_matches
    by (simp add: unverified_registry_def validate_naming_registry_def
        namespace_loop_string [OF v] namespace_matches_def Let_def)
qed

lemma naming_name_first_raises:
  "validate_naming_specifications (YMap ((''metadata'', YMap ((''name'', name) # mkvs)) # kvs))
     \<noteq> Inr r"
proof -
  have "\<exists>e. validate_naming_specifications
               (YMap ((''metadata'', YMap ((''name'', name) # mkvs)) # kvs)) = Inl e"
    by (rule naming_with_name_raises [where mkvs = "(''name'', name) # mkvs" and v = name])
       simp_all
  then show ?thesis
    by auto
qed

text \<open>
  C8. On the artifact of the repository's test for an invalid namespace, the naming
  validator returns no result: after the registry check has found the namespace
  invalid, the check of the name asks the rule table for the key
  \<^verbatim>\<open>"pattern"\<close>, which the table does not have, and the
  \<^verbatim>\<open>KeyError\<close> leaves \<^verbatim>\<open>validate_naming_specifications\<close>. The same
  happens on the artifact with a namespace that lacks its verification, where a warning
  is due, and on every artifact that has a name. The same artifact without its name
  does get the result: invalid, with the error \<^verbatim>\<open>Invalid namespace format\<close>.
\<close>

theorem C8_invalid_namespace_scenario:
  "validate_naming_specifications invalid_namespace_artifact = Inl (KeyError ''pattern'')
   \<and> validate_naming_specifications unverified_namespace_artifact = Inl (KeyError ''pattern'')
   \<and> validate_naming_specifications (YMap ((''metadata'', YMap ((''name'', name) # mkvs)) # kvs))
       \<noteq> Inr r
   \<and> validate_naming_specifications nameless_invalid_namespace_artifact
       = Inr \<lparr>valid = False,
              errors = [InvalidNamespaceFormat (YStr ''invalid-namespace'')],
              warnings = [],
              namespace_compliance =
                Some \<lparr>valid = False,
                      errors = [InvalidNamespaceFormat (YStr ''invalid-namespace'')],
                      warnings = []\<rparr>,
              artifact_name_compliance = None,
              version_compliance = Some \<lparr>valid = True, errors = [], warnings = []\<rparr>\<rparr>"
proof -
  have 1: "validate_naming_specifications invalid_namespace_artifact = Inl (KeyError ''pattern'')"
    by (simp add: invalid_namespace_artifact_def validate_naming_specifications_def
        naming_part_def invalid_namespace_registry_result validate_artifact_name_raises)
  have 2: "validate_naming_specifications unverified_namespace_artifact = Inl (KeyError ''pattern'')"
    by (simp add: unverified_namespace_artifact_def validate_naming_specifications_def
        naming_part_def unverified_registry_result validate_artifact_name_raises)
  have v: "validate_version (YStr ''1.0.0'') = Inr \<lparr>valid = True, errors = [], warnings = []\<rparr>"
    by (simp add: validate_version_def version_patterns_def rx_defs)
  have 3: "validate_naming_specifications nameless_invalid_namespace_artifact
       = Inr \<lparr>valid = False,
              errors = [InvalidNamespaceFormat (YStr ''invalid-namespace'')],
              warnings = [],
              namespace_compliance =
                Some \<lparr>valid = False,
                      errors = [InvalidNamespaceFormat (YStr ''invalid-namespace'')],
                      warnings = []\<rparr>,
              artifact_name_compliance = None,
              version_compliance = Some \<lparr>valid = True, errors = [], warnings = []\<rparr>\<rparr>"
    by (simp add: nameless_invalid_namespace_artifact_def validate_naming_specifications_def
        naming_part_def invalid_namespace_registry_result v part_valid_def part_errors_def
        part_warnings_def)
  from 1 2 3 naming_name_first_raises show ?thesis
    by simp
qed

section \<open>Semantic relationships\<close>







section \<open>The format of references\<close>

lemma rmatch_Nothing [simp]: "rmatch Nothing w = False"
  by (induction w) auto

lemma rmatch_Eps [simp]: "rmatch Eps w = (w = [])"
  by (cases w) auto

lemma rmatch_Chr [simp]: "rmatch (Chr c) w = (w = [c])"
  by (cases w) auto

lemma rmatch_Cls [simp]: "rmatch (Cls cs) w = (\<exists>c. w = [c] \<and> c \<in> set cs)"
  by (cases w) auto

lemma rmatch_Alt [simp]: "rmatch (Alt r s) w = (rmatch r w \<or> rmatch s w)"
  by (induction w arbitrary: r s) auto

lemma rmatch_Seq: "rmatch (Seq r s) w = (\<exists>u v. w = u @ v \<and> rmatch r u \<and> rmatch s v)"
proof (induction w arbitrary: r)
  case Nil
  then show ?case by simp
next
  case (Cons c w)
  show ?case
  proof
    assume "rmatch (Seq r s) (c # w)"
    then consider "rmatch (Seq (deriv c r) s) w" | "nullable r" "rmatch (deriv c s) w"
      by (auto split: if_splits)
    then show "\<exists>u v. c # w = u @ v \<and> rmatch r u \<and> rmatch s v"
    proof cases
      case 1
      then obtain u v where "w = u @ v" "rmatch (deriv c r) u" "rmatch s v"
        using Cons.IH by blast
      then have "c # w = (c # u) @ v \<and> rmatch r (c # u) \<and> rmatch s v"
        by simp
      then show ?thesis by blast
    next
      case 2
      then have "c # w = [] @ (c # w) \<and> rmatch r [] \<and> rmatch s (c # w)"
        by simp
      then show ?thesis by blast
    qed
  next
    assume "\<exists>u v. c # w = u @ v \<and> rmatch r u \<and> rmatch s v"
    then obtain u v where uv: "c # w = u @ v" "rmatch r u" "rmatch s v"
      by blast
    show "rmatch (Seq r s) (c # w)"
    proof (cases u)
      case Nil
      with uv show ?thesis by (auto simp: Cons.IH)
    next
      case (Cons d u')
      with uv have "w = u' @ v" "rmatch (deriv c r) u'" by auto
      with uv(3) have "rmatch (Seq (deriv c r) s) w"
        using Cons.IH by blast
      then show ?thesis by simp
    qed
  qed
qed

lemma rmatch_Star_Cls: "rmatch (Star (Cls cs)) w = (set w \<subseteq> set cs)"
  by (induction w) (auto simp: rmatch_Seq)

lemma rmatch_Plus_Cls: "rmatch (Plus (Cls cs)) w = (w \<noteq> [] \<and> set w \<subseteq> set cs)"
  by (cases w) (auto simp: Plus_def rmatch_Seq rmatch_Star_Cls)

lemma rmatch_Seq_Chr: "rmatch (Seq (Chr c) r) w = (\<exists>v. w = c # v \<and> rmatch r v)"
  by (auto simp: rmatch_Seq)

lemma rmatch_Seq_Plus_Cls:
  "rmatch (Seq (Plus (Cls cs)) r) w
     = (\<exists>u v. w = u @ v \<and> u \<noteq> [] \<and> set u \<subseteq> set cs \<and> rmatch r v)"
  by (simp add: rmatch_Seq [of "Plus (Cls cs)"] rmatch_Plus_Cls)

lemma rmatch_semver:
  "rmatch rx_semver w
     = (\<exists>x y z. w = x @ ''.'' @ y @ ''.'' @ z \<and> number_part x \<and> number_part y \<and> number_part z)"
proof
  assume "rmatch rx_semver w"
  then obtain x v where 1: "w = x @ v" "x \<noteq> []" "set x \<subseteq> set digit"
      and 2: "rmatch (Seq (Chr CHR ''.'') (Seq (Plus (Cls digit)) (Seq (Chr CHR ''.'') (Plus (Cls digit))))) v"
    unfolding rx_semver_def seqs.simps rmatch_Seq_Plus_Cls by blast
  from 2 obtain v' where 3: "v = CHR ''.'' # v'"
      and 4: "rmatch (Seq (Plus (Cls digit)) (Seq (Chr CHR ''.'') (Plus (Cls digit)))) v'"
    unfolding rmatch_Seq_Chr by blast
  from 4 obtain y v'' where 5: "v' = y @ v''" "y \<noteq> []" "set y \<subseteq> set digit"
      and 6: "rmatch (Seq (Chr CHR ''.'') (Plus (Cls digit))) v''"
    unfolding rmatch_Seq_Plus_Cls by blast
  from 6 obtain z where 7: "v'' = CHR ''.'' # z" "z \<noteq> []" "set z \<subseteq> set digit"
    unfolding rmatch_Seq_Chr rmatch_Plus_Cls by blast
  have "w = x @ ''.'' @ y @ ''.'' @ z"
    using 1(1) 3 5(1) 7(1) by simp
  then show "\<exists>x y z. w = x @ ''.'' @ y @ ''.'' @ z \<and> number_part x \<and> number_part y \<and> number_part z"
    using 1 5 7 unfolding number_part_def by blast
next
  assume "\<exists>x y z. w = x @ ''.'' @ y @ ''.'' @ z \<and> number_part x \<and> number_part y \<and> number_part z"
  then obtain x y z where w: "w = x @ ''.'' @ y @ ''.'' @ z"
      and n: "number_part x" "number_part y" "number_part z"
    by blast
  have 7: "rmatch (Seq (Chr CHR ''.'') (Plus (Cls digit))) (''.'' @ z)"
    using n(3) unfolding rmatch_Seq_Chr rmatch_Plus_Cls number_part_def by simp
  have 5: "rmatch (Seq (Plus (Cls digit)) (Seq (Chr CHR ''.'') (Plus (Cls digit)))) (y @ ''.'' @ z)"
    unfolding rmatch_Seq_Plus_Cls using 7 n(2) unfolding number_part_def by blast
  have 3: "rmatch (Seq (Chr CHR ''.'') (Seq (Plus (Cls digit)) (Seq (Chr CHR ''.'') (Plus (Cls digit)))))
             (''.'' @ y @ ''.'' @ z)"
    unfolding rmatch_Seq_Chr [of "CHR ''.''" "Seq (Plus (Cls digit)) (Seq (Chr CHR ''.'') (Plus (Cls digit)))"]
    using 5 by simp
  show "rmatch rx_semver w"
    unfolding rx_semver_def seqs.simps rmatch_Seq_Plus_Cls w
    using 3 n(1) unfolding number_part_def by blast
qed

lemma rmatch_ns_name:
  "rmatch rx_ns_name w = (\<exists>ns nm. w = ns @ ''/'' @ nm \<and> namespace_part ns \<and> name_part nm)"
proof
  assume "rmatch rx_ns_name w"
  then obtain ns v where 1: "w = ns @ v" "ns \<noteq> []" "set ns \<subseteq> set (lower @ digit @ ''.-'')"
      and 2: "rmatch (Seq (Chr CHR ''/'') (Plus (Cls (lower @ digit @ ''-'')))) v"
    unfolding rx_ns_name_def seqs.simps rmatch_Seq_Plus_Cls by blast
  from 2 obtain nm where 3: "v = CHR ''/'' # nm" "nm \<noteq> []" "set nm \<subseteq> set (lower @ digit @ ''-'')"
    unfolding rmatch_Seq_Chr rmatch_Plus_Cls by blast
  have "w = ns @ ''/'' @ nm"
    using 1(1) 3(1) by simp
  then show "\<exists>ns nm. w = ns @ ''/'' @ nm \<and> namespace_part ns \<and> name_part nm"
    using 1 3 unfolding namespace_part_def name_part_def by blast
next
  assume "\<exists>ns nm. w = ns @ ''/'' @ nm \<and> namespace_part ns \<and> name_part nm"
  then obtain ns nm where w: "w = ns @ ''/'' @ nm" and n: "namespace_part ns" "name_part nm"
    by blast
  have 3: "rmatch (Seq (Chr CHR ''/'') (Plus (Cls (lower @ digit @ ''-'')))) (''/'' @ nm)"
    using n(2) unfolding rmatch_Seq_Chr rmatch_Plus_Cls name_part_def by simp
  show "rmatch rx_ns_name w"
    unfolding rx_ns_name_def seqs.simps rmatch_Seq_Plus_Cls w
    using 3 n(1) unfolding namespace_part_def by blast
qed

lemma rmatch_ns_name_version:
  "rmatch rx_ns_name_version w
     = (\<exists>ns nm x y z. w = ns @ ''/'' @ nm @ '':'' @ x @ ''.'' @ y @ ''.'' @ z \<and>
            namespace_part ns \<and> name_part nm \<and>
            number_part x \<and> number_part y \<and> number_part z)"
proof
  assume "rmatch rx_ns_name_version w"
  then obtain u v where 1: "w = u @ v" "rmatch rx_ns_name u"
      and 2: "rmatch (Seq (Chr CHR '':'') rx_semver) v"
    unfolding rx_ns_name_version_def seqs.simps rmatch_Seq [of rx_ns_name] by blast
  from 1(2) obtain ns nm where 3: "u = ns @ ''/'' @ nm" "namespace_part ns" "name_part nm"
    unfolding rmatch_ns_name by blast
  from 2 obtain v' where 4: "v = CHR '':'' # v'" "rmatch rx_semver v'"
    unfolding rmatch_Seq_Chr by blast
  from 4(2) obtain x y z where 5: "v' = x @ ''.'' @ y @ ''.'' @ z"
      "number_part x" "number_part y" "number_part z"
    unfolding rmatch_semver by blast
  have "w = ns @ ''/'' @ nm @ '':'' @ x @ ''.'' @ y @ ''.'' @ z"
    using 1(1) 3(1) 4(1) 5(1) by simp
  then show "\<exists>ns nm x y z. w = ns @ ''/'' @ nm @ '':'' @ x @ ''.'' @ y @ ''.'' @ z \<and>
            namespace_part ns \<and> name_part nm \<and>
            number_part x \<and> number_part y \<and> number_part z"
    using 3 5 by blast
next
  assume "\<exists>ns nm x y z. w = ns @ ''/'' @ nm @ '':'' @ x @ ''.'' @ y @ ''.'' @ z \<and>
            namespace_part ns \<and> name_part nm \<and>
            number_part x \<and> number_part y \<and> number_part z"
  then obtain ns nm x y z where w: "w = ns @ ''/'' @ nm @ '':'' @ x @ ''.'' @ y @ ''.'' @ z"
      and n: "namespace_part ns" "name_part nm" "number_part x" "number_part y" "number_part z"
    by blast
  have a: "rmatch rx_ns_name (ns @ ''/'' @ nm)"
    unfolding rmatch_ns_name using n(1,2) by blast
  have b: "rmatch rx_semver (x @ ''.'' @ y @ ''.'' @ z)"
    unfolding rmatch_semver using n(3,4,5) by blast
  have c: "rmatch (Seq (Chr CHR '':'') rx_semver) ('':'' @ x @ ''.'' @ y @ ''.'' @ z)"
    unfolding rmatch_Seq_Chr using b by simp
  have "w = (ns @ ''/'' @ nm) @ ('':'' @ x @ ''.'' @ y @ ''.'' @ z)"
    using w by simp
  then show "rmatch rx_ns_name_version w"
    unfolding rx_ns_name_version_def seqs.simps rmatch_Seq [of rx_ns_name]
    using a c by blast
qed

lemma rmatch_reference_grammar:
  "list_ex (\<lambda>p. rmatch p s) reference_patterns = reference_grammar s"
  by (simp add: reference_patterns_def reference_grammar_def rmatch_ns_name rmatch_ns_name_version)

text \<open>
  What \<^verbatim>\<open>_is_valid_reference_format\<close> accepts: the grammar, and the grammar
  followed by one newline.
\<close>

lemma reference_format_characterisation:
  "is_valid_reference_format s
     = (reference_grammar s \<or> (\<exists>w. s = w @ [CHR 0x0A] \<and> reference_grammar w))"
proof -
  have "is_valid_reference_format s
      = (list_ex (\<lambda>p. rmatch p s) reference_patterns
         \<or> (s \<noteq> [] \<and> last s = CHR 0x0A \<and> list_ex (\<lambda>p. rmatch p (butlast s)) reference_patterns))"
    by (auto simp: is_valid_reference_format_def reference_patterns_def re_match_anchored_def)
  also have "\<dots> = (reference_grammar s \<or> (s \<noteq> [] \<and> last s = CHR 0x0A \<and> reference_grammar (butlast s)))"
    by (simp only: rmatch_reference_grammar)
  also have "\<dots> = (reference_grammar s \<or> (\<exists>w. s = w @ [CHR 0x0A] \<and> reference_grammar w))"
    by (metis append_butlast_last_id butlast_snoc last_snoc snoc_eq_iff_butlast)
  finally show ?thesis .
qed

lemma reference_grammar_chars:
  "reference_grammar s \<Longrightarrow> set s \<subseteq> set (lower @ digit @ ''.-/:'')"
  by (auto simp: reference_grammar_def namespace_part_def name_part_def number_part_def)

lemma newline_not_in_grammar: "\<not> reference_grammar (''a/b'' @ [CHR 0x0A])"
proof
  assume "reference_grammar (''a/b'' @ [CHR 0x0A])"
  then have "set (''a/b'' @ [CHR 0x0A]) \<subseteq> set (lower @ digit @ ''.-/:'')"
    by (rule reference_grammar_chars)
  then show False
    by (simp add: lower_def digit_def)
qed

text \<open>
  C7. The string \<^verbatim>\<open>a/b\<close> followed by a newline is outside the grammar of
  references, and \<^verbatim>\<open>ReferenceValidator\<close> accepts it: the reference is
  valid, not broken, and the document that holds it has no broken reference.
\<close>

theorem C7_trailing_newline:
  "\<not> reference_grammar (''a/b'' @ [CHR 0x0A])
   \<and> is_valid_reference_format (''a/b'' @ [CHR 0x0A])
   \<and> validate_reference empty_config newline_reference
       = \<lparr>valid = True, errors = [], warnings = [], broken = False, target_exists = True\<rparr>
   \<and> validate_references empty_config (YMap [(''configRef'', YStr (''a/b'' @ [CHR 0x0A]))])
       = \<lparr>valid = True, errors = [], warnings = [], broken_references = [], missing_targets = []\<rparr>"
proof -
  have v: "is_valid_reference_format (''a/b'' @ [CHR 0x0A])"
    by code_simp
  have k: "is_reference_key ''configRef''"
    by (simp add: is_reference_key_def endswith_def)
  show ?thesis
    using newline_not_in_grammar v k
    by (simp add: validate_reference_def validate_references_def newline_reference_def
          empty_config_def Let_def)
qed

end
